theory Spec2Isabelle
  imports Main "HOL-Library.Mapping" "HOL-Library.AList_Mapping" "HOL-Library.Multiset"
    "HOL-Library.Word" "HOL-Library.Char_ord" "HOL-Library.List_Lexorder"
begin

section \<open>Go values\<close>

text \<open>
  A Go \<open>string\<close> is a sequence of bytes, here a \<open>string\<close> (a list of 8-bit characters);
  text outside ASCII is spelled as its UTF-8 bytes. An \<open>error\<close> is its \<open>Error()\<close> text,
  \<open>nil\<close> is \<open>None\<close>. A \<open>time.Time\<close> is an instant counted from the zero \<open>time.Time\<close>,
  so \<open>IsZero\<close> is equality with 0. The counters and indices of the program are Go \<open>int\<close>s
  that start at 0 and are only ever incremented, at most once per element of a slice;
  they are natural numbers here. Window sizes are subtracted from, they are integers.
\<close>

type_synonym gotime = int

definition IsZero :: "gotime \<Rightarrow> bool" where
  "IsZero t = (t = 0)"

definition digit_char :: "nat \<Rightarrow> char" where
  "digit_char d = char_of (48 + d)"

fun digits :: "nat \<Rightarrow> string" where
  "digits n = (if n < 10 then [digit_char n] else digits (n div 10) @ [digit_char (n mod 10)])"

declare digits.simps [simp del]

definition FormatInt :: "int \<Rightarrow> string" where
  \<comment> \<open>strconv.FormatInt(i, 10), and the verb %d\<close>
  "FormatInt i = (if i < 0 then CHR ''-'' # digits (nat (- i)) else digits (nat i))"

definition hextable :: string where
  "hextable = ''0123456789abcdef''"

definition EncodeToString :: "string \<Rightarrow> string" where
  \<comment> \<open>hex.EncodeToString: two lower-case hexadecimal digits per byte\<close>
  "EncodeToString bs =
     concat (map (\<lambda>b. [hextable ! ((of_char b :: nat) div 16), hextable ! ((of_char b :: nat) mod 16)]) bs)"

fun Ext_scan :: "string \<Rightarrow> string \<Rightarrow> string" where
  "Ext_scan [] acc = []"
| "Ext_scan (c # cs) acc =
     (if c = CHR ''/'' then []
      else if c = CHR ''.'' then c # acc
      else Ext_scan cs (c # acc))"

definition filepath_Ext :: "string \<Rightarrow> string" where
  \<comment> \<open>filepath.Ext: the suffix from the last dot of the last path element, scanning
      from the end and stopping at a separator\<close>
  "filepath_Ext p = Ext_scan (rev p) []"

section \<open>Data model\<close>

datatype appState =
  stateConfig | stateBrowser | stateConfirm | stateCloning | stateSummary | stateExporting

record Config =
  MinimaxSecret :: string
  MinimaxGroup :: string

definition IsComplete :: "Config \<Rightarrow> bool" where
  "IsComplete c = (MinimaxSecret c \<noteq> [] \<and> MinimaxGroup c \<noteq> [])"

record Paths =
  ConfigDir :: string
  ConfigFile :: string
  DataDir :: string
  LogsDir :: string
  LogFile :: string
  DBFile :: string
  DownloadsDir :: string

record Record =
  FilePath :: string
  MinimaxFileID :: string
  MinimaxVoiceID :: string
  Status :: string
  ErrorReason :: string
  UpdatedAt :: gotime

record fileItem =
  name :: string
  path :: string
  isDir :: bool
  isParent :: bool

record Client =
  apiKey :: string
  groupID :: string

record CloneResult =
  FileID :: string
  VoiceID :: string
  StatusMsg :: string

text \<open>What \<open>os.ReadDir\<close> gives for one entry: \<open>Name()\<close> and \<open>IsDir()\<close>.\<close>

record dirEntry =
  entryName :: string
  entryIsDir :: bool

record cloneStepMsg =
  stepPath :: string
  stepVoiceID :: string
  stepMessage :: string
  stepErr :: "string option"
  stepTimestamp :: gotime
  stepLogs :: "string list"
  stepRecord :: "Record option"

datatype msg =
    DirLoadedMsg string "fileItem list"
  | ErrMsg string
  | WindowSizeMsg int int
  | KeyMsg string
  | CloneStepMsg cloneStepMsg
  | CloneFinishedMsg nat nat
  | ExportResultMsg string "string option"
  | OtherMsg nat

text \<open>
  A \<open>tea.Cmd\<close> is a closure the runtime runs off the dispatch thread; here it is the
  description of that closure with the values it captured. \<open>LibCmd\<close> stands for a
  command issued by a widget of the UI library.
\<close>

datatype cmd =
    NoCmd
  | Quit
  | Batch "cmd list"
  | SpinnerTick
  | LibCmd nat
  | LoadDirectoryCmd string
  | CloneFileCmd "Client option" string
  | CloneFinishedCmd nat nat
  | ExportCmd "Record list" string
  | Panic

record listModel =
  items :: "fileItem list"
  index :: nat
  title :: string
  listWidth :: int
  listHeight :: int

record textinput =
  placeholder :: string
  inputValue :: string
  focused :: bool

record viewport =
  vpWidth :: int
  vpHeight :: int
  vpContent :: string
  atBottom :: bool

record model =
  state :: appState
  cfg :: Config
  paths :: Paths
  rootPath :: string
  homePath :: string
  minimax :: "Client option"
  list :: listModel
  selected :: "(string, bool) mapping"
  selectedOrder :: "string list"
  width :: int
  height :: int
  statusMsg :: string
  errorMsg :: string
  infoMsg :: string
  currentDir :: string
  textInputs :: "textinput list"
  activeInput :: nat
  confirmLines :: "string list"
  viewport :: viewport
  logs :: "string list"
  cloneQueue :: "string list"
  cloneIndex :: nat
  cloneSuccess :: nat
  cloneFailed :: nat
  pendingReload :: bool
  results :: "Record list"
  lastExportPath :: string

section \<open>The library and the operating system\<close>

text \<open>
  Functions of the Go standard library and of the UI, TOML and CSV packages are not
  part of the program. Those whose result the program only passes on are the fields of
  \<open>golib\<close>, each named after the function it stands for; every theorem below holds for
  any such library, under the hypotheses it states.
  \<open>md5_Sum\<close> gives the 16 bytes of a digest as one 128-bit word, first byte highest.
\<close>

record golib =
  filepath_Dir :: "string \<Rightarrow> string"
  filepath_Join :: "string \<Rightarrow> string \<Rightarrow> string"
  filepath_Base :: "string \<Rightarrow> string"
  strings_ToLower :: "string \<Rightarrow> string"
  strings_TrimSpace :: "string \<Rightarrow> string"
  sort_Slice :: "(dirEntry \<Rightarrow> dirEntry \<Rightarrow> bool) \<Rightarrow> dirEntry list \<Rightarrow> dirEntry list"
  sort_Strings :: "string list \<Rightarrow> string list"
  md5_Sum :: "string \<Rightarrow> 128 word"
  time_Format :: "string \<Rightarrow> gotime \<Rightarrow> string"
  csv_Record :: "string list \<Rightarrow> string"
  toml_Unmarshal :: "string \<Rightarrow> string + Config"
  toml_Marshal :: "Config \<Rightarrow> string + string"
  json_Upload :: "string \<Rightarrow> string + (int \<times> int \<times> string)"
  json_Clone :: "string \<Rightarrow> string + (int \<times> string)"
  list_Update :: "listModel \<Rightarrow> msg \<Rightarrow> listModel \<times> cmd"
  textinput_Update :: "textinput \<Rightarrow> msg \<Rightarrow> textinput \<times> cmd"
  spinner_Update :: "msg \<Rightarrow> cmd"

text \<open>
  \<open>json_Upload\<close> decodes an upload response to \<open>(File.FileID, BaseResp.StatusCode,
  BaseResp.StatusMsg)\<close>, \<open>json_Clone\<close> a clone response to \<open>(BaseResp.StatusCode,
  BaseResp.StatusMsg)\<close>: the fields the program reads.
\<close>

text \<open>
  The world outside the process: the regular files with their bytes, the directories,
  the entries of each directory, a clock, and the remote service. \<open>fails\<close> says which
  operations fail for a reason the rest of the world does not show (permissions, a
  full disk, a closed network) and with which error text. Every reading of the clock
  advances \<open>ticks\<close>; every request sent to the remote service is appended to \<open>sent\<close>.
\<close>

datatype ioop =
    OpAbs string | OpOpen string | OpCopy string | OpReadFile string | OpWriteFile string
  | OpMkdirAll string | OpCreate string | OpWrite string nat | OpStat string
  | OpReadDir string | OpNewRequest string | OpHomeDir | OpGetwd | OpLogFile string

datatype request =
    UploadRequest string string string
  | CloneRequest string string int string

datatype reply = DoFailed string | BodyFailed string | Reply int string

record world =
  files :: "string \<rightharpoonup> string"
  dirs :: "string set"
  entries :: "string \<Rightarrow> dirEntry list"
  fails :: "ioop \<Rightarrow> string option"
  absolute :: "string \<Rightarrow> string"
  now :: "nat \<Rightarrow> gotime"
  ticks :: nat
  http :: "request \<Rightarrow> reply"
  sent :: "request list"
  homeDir :: string
  workDir :: string

definition time_Now :: "world \<Rightarrow> gotime \<times> world" where
  "time_Now w = (now w (ticks w), w\<lparr>ticks := Suc (ticks w)\<rparr>)"

datatype readError = NotExist | ReadFailed string

definition os_ReadFile :: "world \<Rightarrow> string \<Rightarrow> readError + string" where
  "os_ReadFile w p =
     (case fails w (OpReadFile p) of
        Some e \<Rightarrow> Inl (ReadFailed e)
      | None \<Rightarrow> (case files w p of None \<Rightarrow> Inl NotExist | Some d \<Rightarrow> Inr d))"

definition os_WriteFile :: "world \<Rightarrow> string \<Rightarrow> string \<Rightarrow> string option \<times> world" where
  "os_WriteFile w p d =
     (case fails w (OpWriteFile p) of
        Some e \<Rightarrow> (Some e, w)
      | None \<Rightarrow> (None, w\<lparr>files := (files w)(p \<mapsto> d)\<rparr>))"

definition os_MkdirAll :: "world \<Rightarrow> string \<Rightarrow> string option \<times> world" where
  "os_MkdirAll w p =
     (case fails w (OpMkdirAll p) of
        Some e \<Rightarrow> (Some e, w)
      | None \<Rightarrow> (None, w\<lparr>dirs := insert p (dirs w)\<rparr>))"

definition os_Create :: "world \<Rightarrow> string \<Rightarrow> string option \<times> world" where
  \<comment> \<open>os.Create makes the file or truncates it\<close>
  "os_Create w p =
     (case fails w (OpCreate p) of
        Some e \<Rightarrow> (Some e, w)
      | None \<Rightarrow> (None, w\<lparr>files := (files w)(p \<mapsto> [])\<rparr>))"

definition no_such_file :: string where
  "no_such_file = ''no such file or directory''"

definition os_Stat :: "world \<Rightarrow> string \<Rightarrow> string + bool" where
  \<comment> \<open>os.Stat followed by IsDir\<close>
  "os_Stat w p =
     (case fails w (OpStat p) of
        Some e \<Rightarrow> Inl e
      | None \<Rightarrow>
          if p \<in> dirs w then Inr True
          else if files w p \<noteq> None then Inr False
          else Inl no_such_file)"

definition os_ReadDir :: "world \<Rightarrow> string \<Rightarrow> string + dirEntry list" where
  \<comment> \<open>os.ReadDir returns the entries sorted by filename\<close>
  "os_ReadDir w p =
     (case fails w (OpReadDir p) of
        Some e \<Rightarrow> Inl e
      | None \<Rightarrow>
          if p \<in> dirs w then Inr (sort_key entryName (entries w p))
          else Inl no_such_file)"

definition os_Open :: "world \<Rightarrow> string \<Rightarrow> string option" where
  "os_Open w p =
     (case fails w (OpOpen p) of
        Some e \<Rightarrow> Some e
      | None \<Rightarrow> (case files w p of None \<Rightarrow> Some no_such_file | Some d \<Rightarrow> None))"

definition io_Copy :: "world \<Rightarrow> string \<Rightarrow> string + string" where
  \<comment> \<open>io.Copy out of an open file: all its bytes, or a read error\<close>
  "io_Copy w p =
     (case fails w (OpCopy p) of
        Some e \<Rightarrow> Inl e
      | None \<Rightarrow> (case files w p of None \<Rightarrow> Inl no_such_file | Some d \<Rightarrow> Inr d))"

definition filepath_Abs :: "world \<Rightarrow> string \<Rightarrow> string + string" where
  "filepath_Abs w p =
     (case fails w (OpAbs p) of Some e \<Rightarrow> Inl e | None \<Rightarrow> Inr (absolute w p))"

definition Join :: "string list \<Rightarrow> string \<Rightarrow> string" where
  \<comment> \<open>strings.Join\<close>
  "Join xs sep = (case xs of [] \<Rightarrow> [] | y # ys \<Rightarrow> y @ concat (map (\<lambda>s. sep @ s) ys))"

definition Sum_bytes :: "128 word \<Rightarrow> string" where
  \<comment> \<open>the 16 bytes of a digest, first byte first\<close>
  "Sum_bytes d = map (\<lambda>i. char_of (unat (drop_bit (8 * (15 - i)) d))) [0..<16]"

section \<open>Texts shown to the user\<close>

text \<open>
  The program's messages are Chinese; each constant is the UTF-8 encoding of the Go
  literal, with its meaning and the function that uses it.
\<close>

definition txt_select_first :: string where
  \<comment> \<open>updateBrowserKeys, key c: tick at least one file first\<close>
  "txt_select_first = [CHR 0xE8, CHR 0xAF, CHR 0xB7, CHR 0xE5, CHR 0x85, CHR 0x88, CHR 0xE5,
     CHR 0x8B, CHR 0xBE, CHR 0xE9, CHR 0x80, CHR 0x89, CHR 0xE8, CHR 0x87, CHR 0xB3,
     CHR 0xE5, CHR 0xB0, CHR 0x91, CHR 0xE4, CHR 0xB8, CHR 0x80, CHR 0xE4, CHR 0xB8,
     CHR 0xAA, CHR 0xE6, CHR 0x96, CHR 0x87, CHR 0xE4, CHR 0xBB, CHR 0xB6]"

definition txt_no_records :: string where
  \<comment> \<open>updateBrowserKeys, key e: no clone records to export yet\<close>
  "txt_no_records = [CHR 0xE6, CHR 0x9A, CHR 0x82, CHR 0xE6, CHR 0x97, CHR 0xA0, CHR 0xE5,
     CHR 0x8F, CHR 0xAF, CHR 0xE5, CHR 0xAF, CHR 0xBC, CHR 0xE5, CHR 0x87, CHR 0xBA,
     CHR 0xE7, CHR 0x9A, CHR 0x84, CHR 0xE5, CHR 0x85, CHR 0x8B, CHR 0xE9, CHR 0x9A,
     CHR 0x86, CHR 0xE8, CHR 0xAE, CHR 0xB0, CHR 0xE5, CHR 0xBD, CHR 0x95]"

definition txt_ext_only :: string where
  \<comment> \<open>toggleSelection: only mp3, m4a, wav files can be selected\<close>
  "txt_ext_only = [CHR 0xE4, CHR 0xBB, CHR 0x85, CHR 0xE6, CHR 0x94, CHR 0xAF, CHR 0xE6,
     CHR 0x8C, CHR 0x81, CHR 0xE9, CHR 0x80, CHR 0x89, CHR 0xE6, CHR 0x8B, CHR 0xA9]
     @ '' mp3'' @ [CHR 0xE3, CHR 0x80, CHR 0x81] @ ''m4a'' @ [CHR 0xE3, CHR 0x80, CHR 0x81]
     @ ''wav '' @ [CHR 0xE6, CHR 0x96, CHR 0x87, CHR 0xE4, CHR 0xBB, CHR 0xB6]"

definition txt_cannot_enter :: string where
  \<comment> \<open>changeDirectory: cannot enter the directory\<close>
  "txt_cannot_enter = [CHR 0xE6, CHR 0x97, CHR 0xA0, CHR 0xE6, CHR 0xB3, CHR 0x95, CHR 0xE8,
     CHR 0xBF, CHR 0x9B, CHR 0xE5, CHR 0x85, CHR 0xA5, CHR 0xE7, CHR 0x9B, CHR 0xAE,
     CHR 0xE5, CHR 0xBD, CHR 0x95]"

definition txt_exporting :: string where
  \<comment> \<open>updateBrowserKeys, key e: exporting CSV\<close>
  "txt_exporting = [CHR 0xE6, CHR 0xAD, CHR 0xA3, CHR 0xE5, CHR 0x9C, CHR 0xA8, CHR 0xE5,
     CHR 0xAF, CHR 0xBC, CHR 0xE5, CHR 0x87, CHR 0xBA] @ '' CSV...''"

definition txt_cloning :: string where
  \<comment> \<open>updateConfirm: clone jobs running\<close>
  "txt_cloning = [CHR 0xE6, CHR 0xAD, CHR 0xA3, CHR 0xE5, CHR 0x9C, CHR 0xA8, CHR 0xE6,
     CHR 0x89, CHR 0xA7, CHR 0xE8, CHR 0xA1, CHR 0x8C, CHR 0xE5, CHR 0x85, CHR 0x8B,
     CHR 0xE9, CHR 0x9A, CHR 0x86, CHR 0xE4, CHR 0xBB, CHR 0xBB, CHR 0xE5, CHR 0x8A,
     CHR 0xA1] @ ''...''"

definition txt_help :: string where
  \<comment> \<open>newModel, updateSummaryKeys: the key help shown as status\<close>
  "txt_help = [CHR 0xE6, CHR 0x8C, CHR 0x89] @ '' C '' @ [CHR 0xE5, CHR 0x85, CHR 0x8B,
     CHR 0xE9, CHR 0x9A, CHR 0x86] @ '' '' @ [CHR 0xC2, CHR 0xB7] @ '' Shift+C ''
     @ [CHR 0xE7, CHR 0xBC, CHR 0x96, CHR 0xE8, CHR 0xBE, CHR 0x91, CHR 0xE5, CHR 0x87,
     CHR 0xAD, CHR 0xE8, CHR 0xAF, CHR 0x81] @ '' '' @ [CHR 0xC2, CHR 0xB7] @ '' ''
     @ [CHR 0xE7, CHR 0xA9, CHR 0xBA, CHR 0xE6, CHR 0xA0, CHR 0xBC] @ ''/X '' @ [CHR 0xE5,
     CHR 0x8B, CHR 0xBE, CHR 0xE9, CHR 0x80, CHR 0x89, CHR 0xE6, CHR 0x96, CHR 0x87,
     CHR 0xE4, CHR 0xBB, CHR 0xB6] @ '' '' @ [CHR 0xC2, CHR 0xB7] @ '' Enter '' @ [CHR 0xE8,
     CHR 0xBF, CHR 0x9B, CHR 0xE5, CHR 0x85, CHR 0xA5, CHR 0xE7, CHR 0x9B, CHR 0xAE,
     CHR 0xE5, CHR 0xBD, CHR 0x95] @ '' '' @ [CHR 0xC2, CHR 0xB7] @ '' E '' @ [CHR 0xE5,
     CHR 0xAF, CHR 0xBC, CHR 0xE5, CHR 0x87, CHR 0xBA] @ '' '' @ [CHR 0xC2, CHR 0xB7]
     @ '' Q '' @ [CHR 0xE9, CHR 0x80, CHR 0x80, CHR 0xE5, CHR 0x87, CHR 0xBA]"

definition txt_fill_credentials :: string where
  \<comment> \<open>saveConfig: fill in both API Key and Group ID\<close>
  "txt_fill_credentials = [CHR 0xE8, CHR 0xAF, CHR 0xB7, CHR 0xE5, CHR 0xA1, CHR 0xAB,
     CHR 0xE5, CHR 0x86, CHR 0x99, CHR 0xE5, CHR 0xAE, CHR 0x8C, CHR 0xE6, CHR 0x95,
     CHR 0xB4, CHR 0xE7, CHR 0x9A, CHR 0x84] @ '' API Key '' @ [CHR 0xE4, CHR 0xB8,
     CHR 0x8E] @ '' Group ID''"

definition txt_save_failed :: string where
  \<comment> \<open>saveConfig: saving the configuration failed\<close>
  "txt_save_failed = [CHR 0xE4, CHR 0xBF, CHR 0x9D, CHR 0xE5, CHR 0xAD, CHR 0x98, CHR 0xE9,
     CHR 0x85, CHR 0x8D, CHR 0xE7, CHR 0xBD, CHR 0xAE, CHR 0xE5, CHR 0xA4, CHR 0xB1,
     CHR 0xE8, CHR 0xB4, CHR 0xA5] @ '': ''"

definition txt_config_updated :: string where
  \<comment> \<open>saveConfig: configuration updated\<close>
  "txt_config_updated = [CHR 0xE9, CHR 0x85, CHR 0x8D, CHR 0xE7, CHR 0xBD, CHR 0xAE,
     CHR 0xE5, CHR 0xB7, CHR 0xB2, CHR 0xE6, CHR 0x9B, CHR 0xB4, CHR 0xE6, CHR 0x96,
     CHR 0xB0, CHR 0xEF, CHR 0xBC, CHR 0x8C, CHR 0xE5, CHR 0x8F, CHR 0xAF, CHR 0xE7,
     CHR 0xBB, CHR 0xA7, CHR 0xE7, CHR 0xBB, CHR 0xAD, CHR 0xE6, CHR 0x93, CHR 0x8D,
     CHR 0xE4, CHR 0xBD, CHR 0x9C, CHR 0xE3, CHR 0x80, CHR 0x82]"

definition txt_done_success :: string where
  \<comment> \<open>handleCloneFinished: cloning finished: succeeded\<close>
  "txt_done_success = [CHR 0xE5, CHR 0x85, CHR 0x8B, CHR 0xE9, CHR 0x9A, CHR 0x86, CHR 0xE5,
     CHR 0xAE, CHR 0x8C, CHR 0xE6, CHR 0x88, CHR 0x90, CHR 0xEF, CHR 0xBC, CHR 0x9A,
     CHR 0xE6, CHR 0x88, CHR 0x90, CHR 0xE5, CHR 0x8A, CHR 0x9F] @ '' ''"

definition txt_dot_failed :: string where
  \<comment> \<open>handleCloneFinished: separator before the failed count\<close>
  "txt_dot_failed = '' '' @ [CHR 0xC2, CHR 0xB7] @ '' '' @ [CHR 0xE5, CHR 0xA4, CHR 0xB1,
     CHR 0xE8, CHR 0xB4, CHR 0xA5] @ '' ''"

definition txt_export_failed_tail :: string where
  \<comment> \<open>handleCloneFinished: export failed (press q to return)\<close>
  "txt_export_failed_tail = '' '' @ [CHR 0xC2, CHR 0xB7] @ '' '' @ [CHR 0xE5, CHR 0xAF,
     CHR 0xBC, CHR 0xE5, CHR 0x87, CHR 0xBA, CHR 0xE5, CHR 0xA4, CHR 0xB1, CHR 0xE8,
     CHR 0xB4, CHR 0xA5, CHR 0xEF, CHR 0xBC, CHR 0x88, CHR 0xE6, CHR 0x8C, CHR 0x89]
     @ '' q '' @ [CHR 0xE8, CHR 0xBF, CHR 0x94, CHR 0xE5, CHR 0x9B, CHR 0x9E, CHR 0xEF,
     CHR 0xBC, CHR 0x89]"

definition txt_csv_sep :: string where
  \<comment> \<open>handleCloneFinished: separator before the CSV path\<close>
  "txt_csv_sep = '' '' @ [CHR 0xC2, CHR 0xB7] @ '' CSV'' @ [CHR 0xEF, CHR 0xBC, CHR 0x9A]"

definition txt_press_q :: string where
  \<comment> \<open>handleCloneFinished: (press q to return)\<close>
  "txt_press_q = '' ('' @ [CHR 0xE6, CHR 0x8C, CHR 0x89] @ '' q '' @ [CHR 0xE8, CHR 0xBF,
     CHR 0x94, CHR 0xE5, CHR 0x9B, CHR 0x9E] @ '')''"

definition txt_auto_export_failed :: string where
  \<comment> \<open>handleCloneFinished: cross mark, automatic export failed\<close>
  "txt_auto_export_failed = '' '' @ [CHR 0xE2, CHR 0x9D, CHR 0x8C] @ '' '' @ [CHR 0xE8,
     CHR 0x87, CHR 0xAA, CHR 0xE5, CHR 0x8A, CHR 0xA8, CHR 0xE5, CHR 0xAF, CHR 0xBC,
     CHR 0xE5, CHR 0x87, CHR 0xBA, CHR 0xE5, CHR 0xA4, CHR 0xB1, CHR 0xE8, CHR 0xB4,
     CHR 0xA5, CHR 0xEF, CHR 0xBC, CHR 0x9A]"

definition txt_exported_to :: string where
  \<comment> \<open>handleCloneFinished: check mark, results exported to\<close>
  "txt_exported_to = '' '' @ [CHR 0xE2, CHR 0x9C, CHR 0x85] @ '' '' @ [CHR 0xE7, CHR 0xBB,
     CHR 0x93, CHR 0xE6, CHR 0x9E, CHR 0x9C, CHR 0xE5, CHR 0xB7, CHR 0xB2, CHR 0xE5,
     CHR 0xAF, CHR 0xBC, CHR 0xE5, CHR 0x87, CHR 0xBA, CHR 0xEF, CHR 0xBC, CHR 0x9A]"

definition txt_export_failed :: string where
  \<comment> \<open>handleExportResult: export failed\<close>
  "txt_export_failed = [CHR 0xE5, CHR 0xAF, CHR 0xBC, CHR 0xE5, CHR 0x87, CHR 0xBA,
     CHR 0xE5, CHR 0xA4, CHR 0xB1, CHR 0xE8, CHR 0xB4, CHR 0xA5, CHR 0xEF, CHR 0xBC,
     CHR 0x9A]"

definition txt_export_ok :: string where
  \<comment> \<open>handleExportResult: export succeeded\<close>
  "txt_export_ok = [CHR 0xE5, CHR 0xAF, CHR 0xBC, CHR 0xE5, CHR 0x87, CHR 0xBA, CHR 0xE6,
     CHR 0x88, CHR 0x90, CHR 0xE5, CHR 0x8A, CHR 0x9F, CHR 0xEF, CHR 0xBC, CHR 0x9A]"

definition txt_start_file :: string where
  \<comment> \<open>cloneFileCmd: start processing file\<close>
  "txt_start_file = [CHR 0xE5, CHR 0xBC, CHR 0x80, CHR 0xE5, CHR 0xA7, CHR 0x8B, CHR 0xE5,
     CHR 0xA4, CHR 0x84, CHR 0xE7, CHR 0x90, CHR 0x86, CHR 0xE6, CHR 0x96, CHR 0x87,
     CHR 0xE4, CHR 0xBB, CHR 0xB6, CHR 0xEF, CHR 0xBC, CHR 0x9A]"

definition txt_uploading :: string where
  \<comment> \<open>cloneFileCmd: uploading the file\<close>
  "txt_uploading = ''  '' @ [CHR 0xE2, CHR 0x86, CHR 0x92] @ '' '' @ [CHR 0xE6, CHR 0xAD,
     CHR 0xA3, CHR 0xE5, CHR 0x9C, CHR 0xA8, CHR 0xE4, CHR 0xB8, CHR 0x8A, CHR 0xE4,
     CHR 0xBC, CHR 0xA0, CHR 0xE6, CHR 0x96, CHR 0x87, CHR 0xE4, CHR 0xBB, CHR 0xB6]
     @ ''...''"

definition txt_voiceid_failed :: string where
  \<comment> \<open>cloneFileCmd: generating the Voice ID failed\<close>
  "txt_voiceid_failed = ''  '' @ [CHR 0xE2, CHR 0x9D, CHR 0x8C] @ '' '' @ [CHR 0xE7,
     CHR 0x94, CHR 0x9F, CHR 0xE6, CHR 0x88, CHR 0x90] @ '' Voice ID '' @ [CHR 0xE5,
     CHR 0xA4, CHR 0xB1, CHR 0xE8, CHR 0xB4, CHR 0xA5, CHR 0xEF, CHR 0xBC, CHR 0x9A]"

definition txt_voiceid :: string where
  \<comment> \<open>cloneFileCmd: generated Voice ID\<close>
  "txt_voiceid = ''  '' @ [CHR 0xE2, CHR 0x86, CHR 0x92] @ '' '' @ [CHR 0xE7, CHR 0x94,
     CHR 0x9F, CHR 0xE6, CHR 0x88, CHR 0x90] @ '' Voice ID'' @ [CHR 0xEF, CHR 0xBC,
     CHR 0x9A]"

definition txt_upload_failed :: string where
  \<comment> \<open>cloneFileCmd: upload failed\<close>
  "txt_upload_failed = ''  '' @ [CHR 0xE2, CHR 0x9D, CHR 0x8C] @ '' '' @ [CHR 0xE4,
     CHR 0xB8, CHR 0x8A, CHR 0xE4, CHR 0xBC, CHR 0xA0, CHR 0xE5, CHR 0xA4, CHR 0xB1,
     CHR 0xE8, CHR 0xB4, CHR 0xA5, CHR 0xEF, CHR 0xBC, CHR 0x9A]"

definition txt_upload_ok :: string where
  \<comment> \<open>cloneFileCmd: upload succeeded, file ID\<close>
  "txt_upload_ok = ''  '' @ [CHR 0xE2, CHR 0x9C, CHR 0x85] @ '' '' @ [CHR 0xE4, CHR 0xB8,
     CHR 0x8A, CHR 0xE4, CHR 0xBC, CHR 0xA0, CHR 0xE6, CHR 0x88, CHR 0x90, CHR 0xE5,
     CHR 0x8A, CHR 0x9F, CHR 0xEF, CHR 0xBC, CHR 0x8C, CHR 0xE6, CHR 0x96, CHR 0x87,
     CHR 0xE4, CHR 0xBB, CHR 0xB6] @ ''ID'' @ [CHR 0xEF, CHR 0xBC, CHR 0x9A]"

definition txt_cloning_voice :: string where
  \<comment> \<open>cloneFileCmd: cloning the voice (Voice ID\<close>
  "txt_cloning_voice = ''  '' @ [CHR 0xE2, CHR 0x86, CHR 0x92] @ '' '' @ [CHR 0xE6,
     CHR 0xAD, CHR 0xA3, CHR 0xE5, CHR 0x9C, CHR 0xA8, CHR 0xE5, CHR 0x85, CHR 0x8B,
     CHR 0xE9, CHR 0x9A, CHR 0x86, CHR 0xE9, CHR 0x9F, CHR 0xB3, CHR 0xE8, CHR 0x89,
     CHR 0xB2, CHR 0xEF, CHR 0xBC, CHR 0x88] @ ''Voice ID'' @ [CHR 0xEF, CHR 0xBC, CHR 0x9A]"

definition txt_cloning_voice_tail :: string where
  \<comment> \<open>cloneFileCmd: closing bracket and dots\<close>
  "txt_cloning_voice_tail = [CHR 0xEF, CHR 0xBC, CHR 0x89] @ ''...''"

definition txt_clone_failed :: string where
  \<comment> \<open>cloneFileCmd: clone failed\<close>
  "txt_clone_failed = ''  '' @ [CHR 0xE2, CHR 0x9D, CHR 0x8C] @ '' '' @ [CHR 0xE5, CHR 0x85,
     CHR 0x8B, CHR 0xE9, CHR 0x9A, CHR 0x86, CHR 0xE5, CHR 0xA4, CHR 0xB1, CHR 0xE8,
     CHR 0xB4, CHR 0xA5, CHR 0xEF, CHR 0xBC, CHR 0x9A]"

definition txt_clone_ok :: string where
  \<comment> \<open>cloneFileCmd: clone succeeded, Voice ID\<close>
  "txt_clone_ok = ''  '' @ [CHR 0xE2, CHR 0x9C, CHR 0x85] @ '' '' @ [CHR 0xE5, CHR 0x85,
     CHR 0x8B, CHR 0xE9, CHR 0x9A, CHR 0x86, CHR 0xE6, CHR 0x88, CHR 0x90, CHR 0xE5,
     CHR 0x8A, CHR 0x9F, CHR 0xEF, CHR 0xBC, CHR 0x8C] @ ''Voice ID'' @ [CHR 0xEF, CHR 0xBC,
     CHR 0x9A]"

definition txt_minimax_status :: string where
  \<comment> \<open>cloneFileCmd: MiniMax status\<close>
  "txt_minimax_status = ''     MiniMax '' @ [CHR 0xE7, CHR 0x8A, CHR 0xB6, CHR 0xE6,
     CHR 0x80, CHR 0x81, CHR 0xEF, CHR 0xBC, CHR 0x9A]"

definition txt_not_a_dir :: string where
  \<comment> \<open>ensureDirReadable: not a directory\<close>
  "txt_not_a_dir = [CHR 0xE4, CHR 0xB8, CHR 0x8D, CHR 0xE6, CHR 0x98, CHR 0xAF, CHR 0xE7,
     CHR 0x9B, CHR 0xAE, CHR 0xE5, CHR 0xBD, CHR 0x95]"

definition txt_nothing_to_export :: string where
  \<comment> \<open>ToCSV: there are no records to export\<close>
  "txt_nothing_to_export = [CHR 0xE6, CHR 0xB2, CHR 0xA1, CHR 0xE6, CHR 0x9C, CHR 0x89,
     CHR 0xE5, CHR 0x8F, CHR 0xAF, CHR 0xE5, CHR 0xAF, CHR 0xBC, CHR 0xE5, CHR 0x87,
     CHR 0xBA, CHR 0xE7, CHR 0x9A, CHR 0x84, CHR 0xE8, CHR 0xAE, CHR 0xB0, CHR 0xE5,
     CHR 0xBD, CHR 0x95]"

definition txt_read_config_failed :: string where
  \<comment> \<open>main: reading the configuration failed\<close>
  "txt_read_config_failed = [CHR 0xE8, CHR 0xAF, CHR 0xBB, CHR 0xE5, CHR 0x8F, CHR 0x96,
     CHR 0xE9, CHR 0x85, CHR 0x8D, CHR 0xE7, CHR 0xBD, CHR 0xAE, CHR 0xE5, CHR 0xA4,
     CHR 0xB1, CHR 0xE8, CHR 0xB4, CHR 0xA5] @ '': ''"

definition txt_resolve_failed :: string where
  \<comment> \<open>main: cannot resolve paths\<close>
  "txt_resolve_failed = [CHR 0xE6, CHR 0x97, CHR 0xA0, CHR 0xE6, CHR 0xB3, CHR 0x95,
     CHR 0xE8, CHR 0xA7, CHR 0xA3, CHR 0xE6, CHR 0x9E, CHR 0x90, CHR 0xE8, CHR 0xB7,
     CHR 0xAF, CHR 0xE5, CHR 0xBE, CHR 0x84] @ '': ''"

definition txt_mkdir_failed :: string where
  \<comment> \<open>main: cannot create directories\<close>
  "txt_mkdir_failed = [CHR 0xE6, CHR 0x97, CHR 0xA0, CHR 0xE6, CHR 0xB3, CHR 0x95, CHR 0xE5,
     CHR 0x88, CHR 0x9B, CHR 0xE5, CHR 0xBB, CHR 0xBA, CHR 0xE7, CHR 0x9B, CHR 0xAE,
     CHR 0xE5, CHR 0xBD, CHR 0x95] @ '': ''"

definition txt_log_failed :: string where
  \<comment> \<open>main: initialising the log failed\<close>
  "txt_log_failed = [CHR 0xE5, CHR 0x88, CHR 0x9D, CHR 0xE5, CHR 0xA7, CHR 0x8B, CHR 0xE5,
     CHR 0x8C, CHR 0x96, CHR 0xE6, CHR 0x97, CHR 0xA5, CHR 0xE5, CHR 0xBF, CHR 0x97,
     CHR 0xE5, CHR 0xA4, CHR 0xB1, CHR 0xE8, CHR 0xB4, CHR 0xA5] @ '': ''"

section \<open>Package exporter\<close>

definition csv_header :: "string list" where
  "csv_header = [''file_path'', ''minimax_file_id'', ''minimax_voice_id'', ''status'',
     ''error_reason'', ''updated_at'']"

definition RFC3339 :: string where
  "RFC3339 = ''2006-01-02T15:04:05Z07:00''"

definition csv_row :: "golib \<Rightarrow> Record \<Rightarrow> string list" where
  "csv_row lib rec =
     [FilePath rec, MinimaxFileID rec, MinimaxVoiceID rec, Status rec, ErrorReason rec]
     @ [if \<not> IsZero (UpdatedAt rec) then time_Format lib RFC3339 (UpdatedAt rec) else []]"

definition csv_Write :: "golib \<Rightarrow> world \<Rightarrow> string \<Rightarrow> nat \<Rightarrow> string list \<Rightarrow> string option \<times> world" where
  \<comment> \<open>csv.Writer.Write of the k-th row into the file at p: the encoded record is
      appended to the file. The writer's buffer is not modelled: an error of the disk
      shows at the Write that meets it, not at the deferred Flush\<close>
  "csv_Write lib w p k row =
     (case fails w (OpWrite p k) of
        Some e \<Rightarrow> (Some e, w)
      | None \<Rightarrow>
          (case files w p of
             None \<Rightarrow> (Some no_such_file, w)
           | Some d \<Rightarrow> (None, w\<lparr>files := (files w)(p \<mapsto> d @ csv_Record lib row)\<rparr>)))"

fun write_rows :: "golib \<Rightarrow> world \<Rightarrow> string \<Rightarrow> nat \<Rightarrow> Record list \<Rightarrow> string option \<times> world" where
  "write_rows lib w p k [] = (None, w)"
| "write_rows lib w p k (rec # recs) =
     (case csv_Write lib w p k (csv_row lib rec) of
        (Some e, w') \<Rightarrow> (Some (''write row: '' @ e), w')
      | (None, w') \<Rightarrow> write_rows lib w' p (Suc k) recs)"

definition ToCSV :: "golib \<Rightarrow> world \<Rightarrow> Record list \<Rightarrow> string \<Rightarrow> (string + string) \<times> world" where
  "ToCSV lib w records downloadsDir =
     (if downloadsDir = [] then (Inl ''downloads directory not provided'', w)
      else
        case os_MkdirAll w downloadsDir of
          (Some e, w1) \<Rightarrow> (Inl (''ensure downloads directory: '' @ e), w1)
        | (None, w1) \<Rightarrow>
            if length records = 0 then (Inl txt_nothing_to_export, w1)
            else
              let (t, w2) = time_Now w1;
                  filename = ''minimax_voice_export_'' @ time_Format lib ''20060102_150405'' t @ ''.csv'';
                  fullPath = filepath_Join lib downloadsDir filename
              in case os_Create w2 fullPath of
                   (Some e, w3) \<Rightarrow> (Inl (''create export file: '' @ e), w3)
                 | (None, w3) \<Rightarrow>
                     (case csv_Write lib w3 fullPath 0 csv_header of
                        (Some e, w4) \<Rightarrow> (Inl (''write header: '' @ e), w4)
                      | (None, w4) \<Rightarrow>
                          (case write_rows lib w4 fullPath 1 records of
                             (Some e, w5) \<Rightarrow> (Inl e, w5)
                           | (None, w5) \<Rightarrow> (Inr fullPath, w5))))"

section \<open>Package config\<close>

definition emptyConfig :: Config where
  "emptyConfig = \<lparr>MinimaxSecret = [], MinimaxGroup = []\<rparr>"

definition Load :: "golib \<Rightarrow> world \<Rightarrow> string \<Rightarrow> Config \<times> string option" where
  "Load lib w p =
     (let cfg = emptyConfig in
      case os_ReadFile w p of
        Inl NotExist \<Rightarrow> (cfg, None)
      | Inl (ReadFailed e) \<Rightarrow> (cfg, Some (''read config: '' @ e))
      | Inr data \<Rightarrow>
          if length (strings_TrimSpace lib data) = 0 then (cfg, None)
          else
            (case toml_Unmarshal lib data of
               Inl e \<Rightarrow> (emptyConfig, Some (''parse config: '' @ e))
             | Inr c \<Rightarrow> (c, None)))"

definition Save :: "golib \<Rightarrow> world \<Rightarrow> string \<Rightarrow> Config \<Rightarrow> string option \<times> world" where
  "Save lib w p c =
     (case toml_Marshal lib c of
        Inl e \<Rightarrow> (Some (''marshal config: '' @ e), w)
      | Inr data \<Rightarrow>
          (case os_WriteFile w p data of
             (Some e, w') \<Rightarrow> (Some (''write config: '' @ e), w')
           | (None, w') \<Rightarrow> (None, w')))"

section \<open>Package minimax\<close>

definition NewClient :: "string \<Rightarrow> string \<Rightarrow> Client" where
  "NewClient k g = \<lparr>apiKey = k, groupID = g\<rparr>"

definition GenerateVoiceID :: "golib \<Rightarrow> world \<Rightarrow> string \<Rightarrow> string + string" where
  "GenerateVoiceID lib w p =
     (case filepath_Abs w p of
        Inl e \<Rightarrow> Inl (''resolve path for hash: '' @ e)
      | Inr absPath \<Rightarrow>
          (case os_Open w absPath of
             Some e \<Rightarrow> Inl (''open file for hash: '' @ e)
           | None \<Rightarrow>
               (case io_Copy w absPath of
                  Inl e \<Rightarrow> Inl (''hash file: '' @ e)
                | Inr content \<Rightarrow>
                    let sum = Sum_bytes (md5_Sum lib content);
                        full = EncodeToString sum
                    in Inr (''minimax-voice-'' @ drop (length full - 6) full))))"

text \<open>
  The two remote calls. Building the multipart body and the JSON payload happens in
  memory and cannot fail; \<open>http.NewRequestWithContext\<close> fails on a URL it cannot parse
  (\<open>OpNewRequest\<close>). A request handed to \<open>httpClient.Do\<close> is recorded in \<open>sent\<close>.
  \<open>UploadFile\<close> returns the \<open>File.FileID\<close> of the decoded response, the one field its
  callers read.
\<close>

definition upload_url :: string where
  "upload_url = ''https://api.minimaxi.com/v1/files/upload''"

definition UploadFile :: "golib \<Rightarrow> world \<Rightarrow> Client \<Rightarrow> string \<Rightarrow> (string + int) \<times> world" where
  "UploadFile lib w c filePath =
     (if apiKey c = [] then (Inl ''missing MiniMax API key'', w)
      else
        case filepath_Abs w filePath of
          Inl e \<Rightarrow> (Inl (''resolve absolute path: '' @ e), w)
        | Inr absPath \<Rightarrow>
            (case os_Open w absPath of
               Some e \<Rightarrow> (Inl (''open file: '' @ e), w)
             | None \<Rightarrow>
                 (case io_Copy w absPath of
                    Inl e \<Rightarrow> (Inl (''copy file data: '' @ e), w)
                  | Inr content \<Rightarrow>
                      (case fails w (OpNewRequest upload_url) of
                         Some e \<Rightarrow> (Inl (''create request: '' @ e), w)
                       | None \<Rightarrow>
                           let req = UploadRequest (apiKey c) (filepath_Base lib absPath) content;
                               w1 = w\<lparr>sent := sent w @ [req]\<rparr>
                           in case http w req of
                                DoFailed e \<Rightarrow> (Inl (''execute upload request: '' @ e), w1)
                              | BodyFailed e \<Rightarrow> (Inl (''read upload response: '' @ e), w1)
                              | Reply status body \<Rightarrow>
                                  if status \<noteq> 200
                                  then (Inl (''upload failed: status '' @ FormatInt status
                                             @ '', body: '' @ body), w1)
                                  else
                                    (case json_Upload lib body of
                                       Inl e \<Rightarrow> (Inl (''decode upload response: '' @ e), w1)
                                     | Inr (fileID, code, smsg) \<Rightarrow>
                                         if code \<noteq> 0
                                         then (Inl (''minimax upload failed: '' @ FormatInt code
                                                    @ '' '' @ smsg), w1)
                                         else (Inr fileID, w1))))))"

definition clone_url :: "string \<Rightarrow> string" where
  "clone_url g = ''https://api.minimaxi.com/v1/voice_clone?GroupId='' @ g"

definition CloneWithFileID :: "golib \<Rightarrow> world \<Rightarrow> Client \<Rightarrow> int \<Rightarrow> string \<Rightarrow> (string + string) \<times> world" where
  \<comment> \<open>returns the BaseResp.StatusMsg of the decoded response\<close>
  "CloneWithFileID lib w c fileID voiceID =
     (if apiKey c = [] \<or> groupID c = [] then (Inl ''missing MiniMax credentials'', w)
      else
        case fails w (OpNewRequest (clone_url (groupID c))) of
          Some e \<Rightarrow> (Inl (''create request: '' @ e), w)
        | None \<Rightarrow>
            let req = CloneRequest (groupID c) (apiKey c) fileID voiceID;
                w1 = w\<lparr>sent := sent w @ [req]\<rparr>
            in case http w req of
                 DoFailed e \<Rightarrow> (Inl (''execute clone request: '' @ e), w1)
               | BodyFailed e \<Rightarrow> (Inl (''read clone response: '' @ e), w1)
               | Reply status body \<Rightarrow>
                   if status \<noteq> 200
                   then (Inl (''clone failed: status '' @ FormatInt status
                              @ '', body: '' @ body), w1)
                   else
                     (case json_Clone lib body of
                        Inl e \<Rightarrow> (Inl (''decode clone response: '' @ e), w1)
                      | Inr (code, smsg) \<Rightarrow>
                          if code \<noteq> 0
                          then (Inl (''minimax clone failed: '' @ FormatInt code
                                     @ '' '' @ smsg), w1)
                          else (Inr smsg, w1)))"

definition CloneVoice :: "golib \<Rightarrow> world \<Rightarrow> Client \<Rightarrow> string \<Rightarrow> (string + CloneResult) \<times> world" where
  "CloneVoice lib w c filePath =
     (if apiKey c = [] \<or> groupID c = [] then (Inl ''missing MiniMax credentials'', w)
      else
        case GenerateVoiceID lib w filePath of
          Inl e \<Rightarrow> (Inl (''generate voice id: '' @ e), w)
        | Inr voiceID \<Rightarrow>
            (case UploadFile lib w c filePath of
               (Inl e, w1) \<Rightarrow> (Inl (''upload file: '' @ e), w1)
             | (Inr fileID, w1) \<Rightarrow>
                 (case CloneWithFileID lib w1 c fileID voiceID of
                    (Inl e, w2) \<Rightarrow> (Inl (''clone voice: '' @ e), w2)
                  | (Inr smsg, w2) \<Rightarrow>
                      (Inr \<lparr>FileID = FormatInt fileID, VoiceID = voiceID, StatusMsg = smsg\<rparr>, w2))))"

section \<open>Package app: the model and its helpers\<close>

text \<open>
  The logger, the spinner's frame and the list delegate only feed the log file and the
  rendering; they are left out of \<open>model\<close>. A handler that would index a slice out of
  range returns the command \<open>Panic\<close>: the runtime ends the program.
\<close>

definition newline :: string where
  "newline = [CHR 0x0A]"

definition HasPrefix :: "string \<Rightarrow> string \<Rightarrow> bool" where
  "HasPrefix s p = (take (length p) s = p)"

definition TrimPrefix :: "string \<Rightarrow> string \<Rightarrow> string" where
  "TrimPrefix s p = (if HasPrefix s p then drop (length p) s else s)"

definition SetContent :: "viewport \<Rightarrow> string \<Rightarrow> viewport" where
  "SetContent v s = v\<lparr>vpContent := s\<rparr>"

definition GotoBottom :: "viewport \<Rightarrow> viewport" where
  "GotoBottom v = v\<lparr>atBottom := True\<rparr>"

definition viewport_New :: "int \<Rightarrow> int \<Rightarrow> viewport" where
  "viewport_New wd ht = \<lparr>vpWidth = wd, vpHeight = ht, vpContent = [], atBottom = False\<rparr>"

definition SelectedItem :: "listModel \<Rightarrow> fileItem option" where
  \<comment> \<open>list.Model.SelectedItem: the item under the cursor, nil when there is none\<close>
  "SelectedItem l =
     (if length (items l) = 0 \<or> length (items l) \<le> index l then None
      else Some (items l ! index l))"

definition initTextInputs :: "model \<Rightarrow> model" where
  "initTextInputs m =
     m\<lparr>textInputs :=
         [\<lparr>placeholder = ''MiniMax API Key'', inputValue = MinimaxSecret (cfg m), focused = True\<rparr>,
          \<lparr>placeholder = ''MiniMax Group ID'', inputValue = MinimaxGroup (cfg m), focused = False\<rparr>]\<rparr>"

definition os_UserHomeDir :: "world \<Rightarrow> string + string" where
  "os_UserHomeDir w = (case fails w OpHomeDir of Some e \<Rightarrow> Inl e | None \<Rightarrow> Inr (homeDir w))"

definition newModel :: "world \<Rightarrow> Config \<Rightarrow> Paths \<Rightarrow> string \<Rightarrow> model" where
  "newModel w c ps root =
     (let home = (case os_UserHomeDir w of Inl e \<Rightarrow> [] | Inr h \<Rightarrow> h);
          m = \<lparr>state = stateConfig, cfg = c, paths = ps, rootPath = root, homePath = home,
               minimax = None,
               list = \<lparr>items = [], index = 0, title = [], listWidth = 0, listHeight = 0\<rparr>,
               selected = Mapping.empty, selectedOrder = [],
               width = 0, height = 0, statusMsg = txt_help, errorMsg = [], infoMsg = [],
               currentDir = [], textInputs = [], activeInput = 0, confirmLines = [],
               viewport = \<lparr>vpWidth = 0, vpHeight = 0, vpContent = [], atBottom = False\<rparr>,
               logs = [], cloneQueue = [], cloneIndex = 0, cloneSuccess = 0, cloneFailed = 0,
               pendingReload = False, results = [], lastExportPath = []\<rparr>;
          m1 = (if IsComplete c
                then m\<lparr>minimax := Some (NewClient (MinimaxSecret c) (MinimaxGroup c)),
                       state := stateBrowser\<rparr>
                else m\<lparr>state := stateConfig\<rparr>)
      in initTextInputs m1)"

definition Init :: "model \<Rightarrow> cmd" where
  "Init m =
     Batch ((if state m = stateBrowser then [LoadDirectoryCmd (rootPath m)] else [])
            @ (if state m = stateCloning \<or> state m = stateExporting then [SpinnerTick] else []))"

definition currentDirOrRoot :: "model \<Rightarrow> string" where
  "currentDirOrRoot m = (if currentDir m = [] then rootPath m else currentDir m)"

definition isSelected :: "model \<Rightarrow> string \<Rightarrow> bool" where
  \<comment> \<open>m.selected[path]: false for a key the map does not hold\<close>
  "isSelected m p = (case Mapping.lookup (selected m) p of Some b \<Rightarrow> b | None \<Rightarrow> False)"

definition selectedFiles :: "model \<Rightarrow> string list" where
  "selectedFiles m = filter (isSelected m) (selectedOrder m)"

definition toggleSelection :: "golib \<Rightarrow> model \<Rightarrow> fileItem \<Rightarrow> model" where
  \<comment> \<open>remove1 drops the first occurrence, as the loop with its break does\<close>
  "toggleSelection lib m item =
     (if isDir item then m
      else
        let ext = strings_ToLower lib (filepath_Ext (path item)) in
        if ext \<noteq> ''.mp3'' \<and> ext \<noteq> ''.m4a'' \<and> ext \<noteq> ''.wav''
        then m\<lparr>errorMsg := txt_ext_only\<rparr>
        else if isSelected m (path item)
        then m\<lparr>selected := Mapping.delete (path item) (selected m),
                selectedOrder := remove1 (path item) (selectedOrder m)\<rparr>
        else m\<lparr>selected := Mapping.update (path item) True (selected m),
                selectedOrder := selectedOrder m @ [path item]\<rparr>)"

definition prepareConfirmLines :: "golib \<Rightarrow> model \<Rightarrow> model" where
  "prepareConfirmLines lib m = m\<lparr>confirmLines := sort_Strings lib (selectedFiles m)\<rparr>"

definition displayPath :: "golib \<Rightarrow> model \<Rightarrow> string \<Rightarrow> string" where
  "displayPath lib m p =
     (if p = [] then ''.''
      else if homePath m \<noteq> [] \<and> p = homePath m then ''~''
      else if homePath m \<noteq> [] \<and> HasPrefix p (homePath m @ ''/'')
      then filepath_Join lib ''~'' (TrimPrefix (TrimPrefix p (homePath m)) ''/'')
      else p)"

definition handleResize :: "model \<Rightarrow> model" where
  "handleResize m =
     (let m1 = (if state m = stateBrowser
                then m\<lparr>list := (list m)\<lparr>listWidth := max 20 (width m - 32),
                                         listHeight := max 3 (height m - 4)\<rparr>\<rparr>
                else m)
      in if state m1 = stateCloning \<or> state m1 = stateSummary
         then m1\<lparr>viewport :=
                   SetContent ((viewport m1)\<lparr>vpWidth := max 20 (width m1 - 4),
                                             vpHeight := max 5 (height m1 - 6)\<rparr>)
                              (Join (logs m1) newline)\<rparr>
         else m1)"

section \<open>The clone pipeline\<close>

definition nextCloneCmd :: "model \<Rightarrow> model \<times> cmd" where
  "nextCloneCmd m =
     (if cloneIndex m \<ge> length (cloneQueue m)
      then (m, CloneFinishedCmd (cloneSuccess m) (cloneFailed m))
      else (m\<lparr>cloneIndex := cloneIndex m + 1\<rparr>,
            CloneFileCmd (minimax m) (cloneQueue m ! cloneIndex m)))"

definition handleCloneStep :: "golib \<Rightarrow> model \<Rightarrow> cloneStepMsg \<Rightarrow> model \<times> cmd" where
  "handleCloneStep lib m s =
     (let ts = time_Format lib ''15:04:05'' (stepTimestamp s);
          m1 = m\<lparr>logs := logs m @ map (\<lambda>line. ''['' @ ts @ ''] '' @ line) (stepLogs s)\<rparr>;
          m2 = (case stepRecord s of
                  Some r \<Rightarrow> m1\<lparr>results := results m1 @ [r]\<rparr>
                | None \<Rightarrow> m1);
          m3 = (if stepErr s \<noteq> None
                then m2\<lparr>cloneFailed := cloneFailed m2 + 1\<rparr>
                else m2\<lparr>cloneSuccess := cloneSuccess m2 + 1\<rparr>);
          m4 = m3\<lparr>viewport := GotoBottom (SetContent (viewport m3) (Join (logs m3) newline))\<rparr>
      in nextCloneCmd m4)"

definition handleCloneFinished :: "golib \<Rightarrow> world \<Rightarrow> model \<Rightarrow> nat \<Rightarrow> nat \<Rightarrow> model \<times> cmd \<times> world" where
  "handleCloneFinished lib w m success failed =
     (let (r, w1) = ToCSV lib w (results m) (DownloadsDir (paths m));
          (t, w2) = time_Now w1;
          timestamp = time_Format lib ''15:04:05'' t;
          m1 = (case r of
                  Inl exportErr \<Rightarrow>
                    m\<lparr>logs := logs m @ [''['' @ timestamp @ '']'' @ txt_auto_export_failed @ exportErr],
                      statusMsg := txt_done_success @ digits success @ txt_dot_failed
                                   @ digits failed @ txt_export_failed_tail,
                      lastExportPath := []\<rparr>
                | Inr csvPath \<Rightarrow>
                    m\<lparr>logs := logs m @ [''['' @ timestamp @ '']'' @ txt_exported_to @ csvPath],
                      statusMsg := txt_done_success @ digits success @ txt_dot_failed
                                   @ digits failed @ txt_csv_sep @ csvPath @ txt_press_q,
                      lastExportPath := csvPath\<rparr>);
          m2 = m1\<lparr>state := stateSummary, selected := Mapping.empty, selectedOrder := [],
                  pendingReload := True, errorMsg := []\<rparr>;
          m3 = m2\<lparr>viewport := GotoBottom (SetContent (viewport m2) (Join (logs m2) newline))\<rparr>
      in (m3, NoCmd, w2))"

definition handleExportResult :: "model \<Rightarrow> string \<Rightarrow> string option \<Rightarrow> model" where
  "handleExportResult m p err =
     (let m1 = m\<lparr>state := stateBrowser\<rparr> in
      case err of
        Some e \<Rightarrow> m1\<lparr>errorMsg := txt_export_failed @ e, statusMsg := []\<rparr>
      | None \<Rightarrow> m1\<lparr>statusMsg := txt_export_ok @ p, errorMsg := [], lastExportPath := p\<rparr>)"

definition failedRecord :: "string \<Rightarrow> string \<Rightarrow> string \<Rightarrow> string \<Rightarrow> gotime \<Rightarrow> Record" where
  "failedRecord p fid vid e t =
     \<lparr>FilePath = p, MinimaxFileID = fid, MinimaxVoiceID = vid, Status = ''failed'',
      ErrorReason = e, UpdatedAt = t\<rparr>"

definition cloneFileCmd :: "golib \<Rightarrow> world \<Rightarrow> Client option \<Rightarrow> string \<Rightarrow> cloneStepMsg option \<times> world" where
  \<comment> \<open>the closure cloneFileCmd returns; None: it dereferenced a nil client and panicked\<close>
  "cloneFileCmd lib w client p =
     (let (timestamp, w0) = time_Now w;
          logs0 = [txt_start_file @ filepath_Base lib p, txt_uploading]
      in case GenerateVoiceID lib w0 p of
           Inl e \<Rightarrow>
             let logs1 = logs0 @ [txt_voiceid_failed @ e];
                 (t, w1) = time_Now w0
             in (Some \<lparr>stepPath = p, stepVoiceID = [], stepMessage = [], stepErr = Some e,
                       stepTimestamp = timestamp, stepLogs = logs1,
                       stepRecord = Some (failedRecord p [] [] e t)\<rparr>, w1)
         | Inr voiceID \<Rightarrow>
             let logs1 = logs0 @ [txt_voiceid @ voiceID] in
             (case client of
                None \<Rightarrow> (None, w0)
              | Some c \<Rightarrow>
                  (case UploadFile lib w0 c p of
                     (Inl e, w1) \<Rightarrow>
                       let (t, w2) = time_Now w1;
                           logs2 = logs1 @ [txt_upload_failed @ e]
                       in (Some \<lparr>stepPath = p, stepVoiceID = [], stepMessage = [],
                                 stepErr = Some e, stepTimestamp = timestamp, stepLogs = logs2,
                                 stepRecord = Some (failedRecord p [] [] e t)\<rparr>, w2)
                   | (Inr fileID, w1) \<Rightarrow>
                       let fileIDStr = FormatInt fileID;
                           logs2 = logs1 @ [txt_upload_ok @ fileIDStr,
                                            txt_cloning_voice @ voiceID @ txt_cloning_voice_tail]
                       in (case CloneWithFileID lib w1 c fileID voiceID of
                             (Inl e, w2) \<Rightarrow>
                               let (t, w3) = time_Now w2;
                                   logs3 = logs2 @ [txt_clone_failed @ e];
                                   (t', w4) = time_Now w3
                               in (Some \<lparr>stepPath = p, stepVoiceID = [], stepMessage = [],
                                         stepErr = Some e, stepTimestamp = t', stepLogs = logs3,
                                         stepRecord = Some (failedRecord p fileIDStr voiceID e t)\<rparr>,
                                   w4)
                           | (Inr smsg, w2) \<Rightarrow>
                               let logs3 = logs2 @ [txt_clone_ok @ voiceID, txt_minimax_status @ smsg];
                                   (t, w3) = time_Now w2;
                                   rec = \<lparr>FilePath = p, MinimaxFileID = fileIDStr,
                                          MinimaxVoiceID = voiceID, Status = ''success'',
                                          ErrorReason = [], UpdatedAt = t\<rparr>;
                                   (t', w4) = time_Now w3
                               in (Some \<lparr>stepPath = p, stepVoiceID = voiceID, stepMessage = smsg,
                                         stepErr = None, stepTimestamp = t', stepLogs = logs3,
                                         stepRecord = Some rec\<rparr>, w4)))))"

definition exportCmd :: "model \<Rightarrow> cmd" where
  "exportCmd m = ExportCmd (results m) (DownloadsDir (paths m))"

section \<open>Directories\<close>

definition entryLess :: "golib \<Rightarrow> dirEntry \<Rightarrow> dirEntry \<Rightarrow> bool" where
  \<comment> \<open>the less function listDirectory hands to sort.Slice\<close>
  "entryLess lib a b =
     (if entryIsDir a \<and> \<not> entryIsDir b then True
      else if \<not> entryIsDir a \<and> entryIsDir b then False
      else strings_ToLower lib (entryName a) < strings_ToLower lib (entryName b))"

definition parentItem :: "string \<Rightarrow> fileItem" where
  "parentItem parent = \<lparr>name = ''..'', path = parent, isDir = True, isParent = True\<rparr>"

definition childItem :: "golib \<Rightarrow> string \<Rightarrow> dirEntry \<Rightarrow> fileItem" where
  "childItem lib p e =
     \<lparr>name = entryName e, path = filepath_Join lib p (entryName e), isDir = entryIsDir e,
      isParent = False\<rparr>"

definition listDirectory :: "golib \<Rightarrow> world \<Rightarrow> string \<Rightarrow> string + fileItem list" where
  "listDirectory lib w p =
     (case os_ReadDir w p of
        Inl e \<Rightarrow> Inl e
      | Inr ents \<Rightarrow>
          let parent = filepath_Dir lib p;
              items0 = (if parent \<noteq> p then [parentItem parent] else []);
              ents' = sort_Slice lib (entryLess lib) ents
          in Inr (items0 @ map (childItem lib p) ents'))"

definition ensureDirReadable :: "world \<Rightarrow> string \<Rightarrow> string option" where
  "ensureDirReadable w p =
     (case os_Stat w p of
        Inl e \<Rightarrow> Some e
      | Inr d \<Rightarrow> if \<not> d then Some txt_not_a_dir else None)"

definition loadDirectoryCmd :: "golib \<Rightarrow> world \<Rightarrow> string \<Rightarrow> msg" where
  \<comment> \<open>the closure loadDirectoryCmd returns\<close>
  "loadDirectoryCmd lib w p =
     (case ensureDirReadable w p of
        Some e \<Rightarrow> ErrMsg e
      | None \<Rightarrow>
          (case listDirectory lib w p of
             Inl e \<Rightarrow> ErrMsg e
           | Inr its \<Rightarrow> DirLoadedMsg p its))"

definition updateDir :: "golib \<Rightarrow> model \<Rightarrow> string \<Rightarrow> fileItem list \<Rightarrow> model" where
  "updateDir lib m p its =
     (let m1 = m\<lparr>currentDir := p\<rparr>;
          l1 = (list m1)\<lparr>items := its\<rparr>;
          l2 = (if length its > 0 then l1\<lparr>index := 0\<rparr> else l1);
          m2 = m1\<lparr>list := l2, errorMsg := []\<rparr>
      in m2\<lparr>list := (list m2)\<lparr>title := displayPath lib m2 p\<rparr>\<rparr>)"

definition updateError :: "model \<Rightarrow> string \<Rightarrow> model" where
  "updateError m e = m\<lparr>errorMsg := e\<rparr>"

definition changeDirectory :: "world \<Rightarrow> model \<Rightarrow> string \<Rightarrow> model \<times> cmd" where
  "changeDirectory w m p =
     (case os_Stat w p of
        Inl e \<Rightarrow> (m\<lparr>errorMsg := txt_cannot_enter\<rparr>, NoCmd)
      | Inr d \<Rightarrow>
          if \<not> d then (m\<lparr>errorMsg := txt_cannot_enter\<rparr>, NoCmd)
          else (m, LoadDirectoryCmd p))"

definition goParentDirectory :: "golib \<Rightarrow> world \<Rightarrow> model \<Rightarrow> model \<times> cmd" where
  "goParentDirectory lib w m =
     (let parent = filepath_Dir lib (currentDirOrRoot m) in
      if parent = currentDirOrRoot m then (m, NoCmd) else changeDirectory w m parent)"

section \<open>Key handlers\<close>

definition updateInputs :: "golib \<Rightarrow> model \<Rightarrow> msg \<Rightarrow> model \<times> cmd" where
  \<comment> \<open>the loop that hands a message to every text input and batches their commands\<close>
  "updateInputs lib m ms =
     (let rs = map (\<lambda>ti. textinput_Update lib ti ms) (textInputs m)
      in (m\<lparr>textInputs := map fst rs\<rparr>, Batch (map snd rs)))"

definition focusActive :: "model \<Rightarrow> model" where
  \<comment> \<open>Focus on the active input, Blur on the others\<close>
  "focusActive m =
     m\<lparr>textInputs :=
         map (\<lambda>(i, ti). ti\<lparr>focused := (i = activeInput m)\<rparr>) (enumerate 0 (textInputs m))\<rparr>"

definition saveConfig :: "golib \<Rightarrow> world \<Rightarrow> model \<Rightarrow> model \<times> cmd \<times> world" where
  "saveConfig lib w m =
     (case textInputs m of
        a # b # rest \<Rightarrow>
          let api = strings_TrimSpace lib (inputValue a);
              grp = strings_TrimSpace lib (inputValue b)
          in if api = [] \<or> grp = [] then (m\<lparr>errorMsg := txt_fill_credentials\<rparr>, NoCmd, w)
             else
               let newCfg = \<lparr>MinimaxSecret = api, MinimaxGroup = grp\<rparr> in
               (case Save lib w (ConfigFile (paths m)) newCfg of
                  (Some e, w1) \<Rightarrow> (m\<lparr>errorMsg := txt_save_failed @ e\<rparr>, NoCmd, w1)
                | (None, w1) \<Rightarrow>
                    let m1 = m\<lparr>cfg := newCfg, minimax := Some (NewClient api grp),
                               state := stateBrowser, statusMsg := txt_config_updated,
                               errorMsg := []\<rparr>
                    in (m1, LoadDirectoryCmd (currentDirOrRoot m1), w1))
      | _ \<Rightarrow> (m, Panic, w))"

definition updateConfig :: "golib \<Rightarrow> world \<Rightarrow> model \<Rightarrow> string \<Rightarrow> model \<times> cmd \<times> world" where
  "updateConfig lib w m key =
     (if key = ''ctrl+c'' then (m, Quit, w)
      else if key = ''esc'' then
        (if \<not> IsComplete (cfg m) then (m, Quit, w)
         else
           let m1 = m\<lparr>state := stateBrowser\<rparr>
           in (m1, LoadDirectoryCmd (currentDirOrRoot m1), w))
      else if key \<in> {''tab'', ''shift+tab'', ''enter'', ''up'', ''down''} then
        (if key = ''enter'' \<and> int (activeInput m) = int (length (textInputs m)) - 1
         then saveConfig lib w m
         else
           let m1 =
                (if key = ''enter'' \<and> int (activeInput m) < int (length (textInputs m)) - 1
                 then m\<lparr>activeInput := activeInput m + 1\<rparr>
                 else if key = ''shift+tab'' \<or> key = ''up''
                 then (if activeInput m > 0 then m\<lparr>activeInput := activeInput m - 1\<rparr> else m)
                 else if key = ''tab'' \<or> key = ''down''
                 then (if int (activeInput m) < int (length (textInputs m)) - 1
                       then m\<lparr>activeInput := activeInput m + 1\<rparr> else m)
                 else m);
               (m2, c) = updateInputs lib (focusActive m1) (KeyMsg key)
           in (m2, c, w))
      else
        let (m1, c) = updateInputs lib m (KeyMsg key) in (m1, c, w))"

definition toggleKey :: "golib \<Rightarrow> model \<Rightarrow> model" where
  \<comment> \<open>the body shared by the cases for the space key and for x\<close>
  "toggleKey lib m =
     (case SelectedItem (list m) of
        Some item \<Rightarrow> if \<not> isDir item then toggleSelection lib m item else m
      | None \<Rightarrow> m)"

definition enterKey :: "world \<Rightarrow> model \<Rightarrow> model \<times> cmd" where
  \<comment> \<open>the body shared by the cases for right, l and for enter\<close>
  "enterKey w m =
     (case SelectedItem (list m) of
        Some item \<Rightarrow> if isDir item then changeDirectory w m (path item) else (m, NoCmd)
      | None \<Rightarrow> (m, NoCmd))"

definition updateBrowserKeys :: "golib \<Rightarrow> world \<Rightarrow> model \<Rightarrow> string \<Rightarrow> model \<times> cmd" where
  "updateBrowserKeys lib w m key =
     (if key = ''ctrl+c'' then (m, Quit)
      else if key = ''q'' then (m, Quit)
      else if key = ''c'' then
        (if Mapping.is_empty (selected m) then (m\<lparr>errorMsg := txt_select_first\<rparr>, NoCmd)
         else (prepareConfirmLines lib (m\<lparr>state := stateConfirm\<rparr>), NoCmd))
      else if key = ''C'' then (initTextInputs (m\<lparr>state := stateConfig\<rparr>), NoCmd)
      else if key = ''e'' then
        (if length (results m) = 0 then (m\<lparr>errorMsg := txt_no_records\<rparr>, NoCmd)
         else
           let m1 = m\<lparr>state := stateExporting, statusMsg := txt_exporting\<rparr>
           in (m1, Batch [SpinnerTick, exportCmd m1]))
      else if key = '' '' then (toggleKey lib m, NoCmd)
      else if key = ''x'' then (toggleKey lib m, NoCmd)
      else if key \<in> {''left'', ''h'', ''backspace''} then goParentDirectory lib w m
      else if key \<in> {''right'', ''l''} then enterKey w m
      else if key = ''enter'' then enterKey w m
      else
        let (l, c) = list_Update lib (list m) (KeyMsg key) in (m\<lparr>list := l\<rparr>, c))"

definition updateConfirm :: "model \<Rightarrow> string \<Rightarrow> model \<times> cmd" where
  "updateConfirm m key =
     (if key = ''ctrl+c'' then (m, Quit)
      else if key = ''esc'' \<or> key = ''n'' then (m\<lparr>state := stateBrowser\<rparr>, NoCmd)
      else if key = ''enter'' \<or> key = ''y'' then
        let m1 = m\<lparr>state := stateCloning\<rparr>;
            m2 = m1\<lparr>cloneQueue := selectedFiles m1, cloneIndex := 0, cloneSuccess := 0,
                    cloneFailed := 0, logs := [], results := [], lastExportPath := [],
                    viewport := SetContent (viewport_New (width m1 - 4) (height m1 - 6)) [],
                    statusMsg := txt_cloning\<rparr>;
            (m3, c) = nextCloneCmd m2
        in (m3, Batch [SpinnerTick, c])
      else (m, NoCmd))"

definition updateCloningKeys :: "model \<Rightarrow> string \<Rightarrow> model \<times> cmd" where
  "updateCloningKeys m key = (if key = ''ctrl+c'' then (m, Quit) else (m, NoCmd))"

definition updateSummaryKeys :: "model \<Rightarrow> string \<Rightarrow> model \<times> cmd" where
  "updateSummaryKeys m key =
     (if key = ''ctrl+c'' then (m, Quit)
      else if key = ''q'' then
        let m1 = m\<lparr>state := stateBrowser, logs := [],
                    viewport := SetContent (viewport m) []\<rparr>;
            c = (if pendingReload m1 then LoadDirectoryCmd (currentDirOrRoot m1) else NoCmd);
            m2 = (if pendingReload m1 then m1\<lparr>pendingReload := False\<rparr> else m1)
        in (m2\<lparr>statusMsg := txt_help, cloneQueue := [], cloneIndex := 0, cloneSuccess := 0,
                cloneFailed := 0, errorMsg := []\<rparr>, c)
      else (m, NoCmd))"

definition handleKeyMsg :: "golib \<Rightarrow> world \<Rightarrow> model \<Rightarrow> string \<Rightarrow> model \<times> cmd \<times> world" where
  "handleKeyMsg lib w m key =
     (case state m of
        stateConfig \<Rightarrow> updateConfig lib w m key
      | stateBrowser \<Rightarrow> (let (m1, c) = updateBrowserKeys lib w m key in (m1, c, w))
      | stateConfirm \<Rightarrow> (let (m1, c) = updateConfirm m key in (m1, c, w))
      | stateCloning \<Rightarrow> (let (m1, c) = updateCloningKeys m key in (m1, c, w))
      | stateSummary \<Rightarrow> (let (m1, c) = updateSummaryKeys m key in (m1, c, w))
      | stateExporting \<Rightarrow> (m, NoCmd, w))"

section \<open>The dispatcher and the runtime\<close>

definition Update :: "golib \<Rightarrow> world \<Rightarrow> model \<Rightarrow> msg \<Rightarrow> model \<times> cmd \<times> world" where
  "Update lib w m ms =
     (case ms of
        DirLoadedMsg p its \<Rightarrow> (updateDir lib m p its, NoCmd, w)
      | ErrMsg e \<Rightarrow> (updateError m e, NoCmd, w)
      | WindowSizeMsg wd ht \<Rightarrow> (handleResize (m\<lparr>width := wd, height := ht\<rparr>), NoCmd, w)
      | KeyMsg key \<Rightarrow> handleKeyMsg lib w m key
      | CloneStepMsg s \<Rightarrow> (let (m1, c) = handleCloneStep lib m s in (m1, c, w))
      | CloneFinishedMsg s f \<Rightarrow> handleCloneFinished lib w m s f
      | ExportResultMsg p e \<Rightarrow> (handleExportResult m p e, NoCmd, w)
      | OtherMsg n \<Rightarrow>
          if state m = stateBrowser
          then (let (l, c) = list_Update lib (list m) ms in (m\<lparr>list := l\<rparr>, c, w))
          else if state m = stateConfig \<and> length (textInputs m) > 0
          then (let (m1, c) = updateInputs lib m ms in (m1, c, w))
          else if state m = stateCloning \<or> state m = stateExporting
          then (m, spinner_Update lib ms, w)
          else (m, NoCmd, w))"

definition runCmd :: "golib \<Rightarrow> world \<Rightarrow> cmd \<Rightarrow> msg option \<times> world" where
  \<comment> \<open>the runtime runs a command of the program and gets its message; None: the
      command delivers none, belongs to the UI library, or ended the program\<close>
  "runCmd lib w c =
     (case c of
        LoadDirectoryCmd p \<Rightarrow> (Some (loadDirectoryCmd lib w p), w)
      | CloneFileCmd client p \<Rightarrow>
          (case cloneFileCmd lib w client p of
             (None, w1) \<Rightarrow> (None, w1)
           | (Some s, w1) \<Rightarrow> (Some (CloneStepMsg s), w1))
      | CloneFinishedCmd s f \<Rightarrow> (Some (CloneFinishedMsg s f), w)
      | ExportCmd records dir \<Rightarrow>
          (case ToCSV lib w records dir of
             (Inl e, w1) \<Rightarrow> (Some (ExportResultMsg [] (Some e)), w1)
           | (Inr p, w1) \<Rightarrow> (Some (ExportResultMsg p None), w1))
      | _ \<Rightarrow> (None, w))"





section \<open>Startup\<close>

definition ResolvePaths :: "golib \<Rightarrow> world \<Rightarrow> string + Paths" where
  "ResolvePaths lib w =
     (case os_UserHomeDir w of
        Inl e \<Rightarrow> Inl (''resolve home dir: '' @ e)
      | Inr home \<Rightarrow>
          let configDir = filepath_Join lib home ''.minimax'';
              dataDir = filepath_Join lib home ''minimax'';
              logsDir = filepath_Join lib dataDir ''logs'';
              downloadsDir = filepath_Join lib home ''Downloads''
          in Inr \<lparr>ConfigDir = configDir,
                  ConfigFile = filepath_Join lib configDir ''config.toml'',
                  DataDir = dataDir, LogsDir = logsDir,
                  LogFile = filepath_Join lib logsDir ''app.log'',
                  DBFile = filepath_Join lib dataDir ''minimax.db'',
                  DownloadsDir = downloadsDir\<rparr>)"

fun mkdirs :: "world \<Rightarrow> string list \<Rightarrow> string option \<times> world" where
  "mkdirs w [] = (None, w)"
| "mkdirs w (d # ds) =
     (case os_MkdirAll w d of
        (Some e, w1) \<Rightarrow> (Some (''create dir '' @ d @ '': '' @ e), w1)
      | (None, w1) \<Rightarrow> mkdirs w1 ds)"

definition EnsureDirs :: "world \<Rightarrow> Paths \<Rightarrow> string option \<times> world" where
  "EnsureDirs w ps = mkdirs w [ConfigDir ps, DataDir ps, LogsDir ps]"

definition Setup :: "world \<Rightarrow> string \<Rightarrow> string option \<times> world" where
  \<comment> \<open>logging.Setup: opens the log file for appending, creating it when it is missing\<close>
  "Setup w logPath =
     (case fails w (OpLogFile logPath) of
        Some e \<Rightarrow> (Some (''open log file: '' @ e), w)
      | None \<Rightarrow>
          (case files w logPath of
             None \<Rightarrow> (None, w\<lparr>files := (files w)(logPath \<mapsto> [])\<rparr>)
           | Some d \<Rightarrow> (None, w)))"

definition os_Getwd :: "world \<Rightarrow> string + string" where
  "os_Getwd w = (case fails w OpGetwd of Some e \<Rightarrow> Inl e | None \<Rightarrow> Inr (workDir w))"

definition Run :: "world \<Rightarrow> Config \<Rightarrow> Paths \<Rightarrow> string \<Rightarrow> model" where
  \<comment> \<open>App.Run up to the start of the UI runtime: the model it hands over\<close>
  "Run w c ps root = newModel w c ps (if root = [] then ''.'' else root)"

text \<open>
  \<open>main\<close> either prints a message and exits with code 1 before the UI starts, or starts
  the UI runtime on the model of \<open>newModel\<close>.
\<close>

datatype startup = Exit nat string | Started model world

definition main :: "golib \<Rightarrow> world \<Rightarrow> startup" where
  "main lib w =
     (case ResolvePaths lib w of
        Inl e \<Rightarrow> Exit 1 (txt_resolve_failed @ e @ newline)
      | Inr ps \<Rightarrow>
          (case EnsureDirs w ps of
             (Some e, w1) \<Rightarrow> Exit 1 (txt_mkdir_failed @ e @ newline)
           | (None, w1) \<Rightarrow>
               (case Load lib w1 (ConfigFile ps) of
                  (c, Some e) \<Rightarrow> Exit 1 (txt_read_config_failed @ e @ newline)
                | (c, None) \<Rightarrow>
                    (case Setup w1 (LogFile ps) of
                       (Some e, w2) \<Rightarrow> Exit 1 (txt_log_failed @ e @ newline)
                     | (None, w2) \<Rightarrow>
                         let startDir = (case os_Getwd w2 of Inl e \<Rightarrow> ''.'' | Inr d \<Rightarrow> d)
                         in Started (Run w2 c ps startDir) w2))))"

section \<open>A library and a world for the examples\<close>

text \<open>
  The concrete inputs of the examples below need some library. \<open>demoLib\<close> agrees with
  the Go functions on ASCII text and on clean slash-separated paths; \<open>sumDigest\<close> is
  only a stand-in for a digest (the sum of the bytes), it is not MD5.
\<close>

definition toLowerASCII :: "string \<Rightarrow> string" where
  "toLowerASCII =
     map (\<lambda>c. if CHR ''A'' \<le> c \<and> c \<le> CHR ''Z'' then char_of ((of_char c :: nat) + 32) else c)"

definition isSpaceASCII :: "char \<Rightarrow> bool" where
  "isSpaceASCII c = (c \<in> set [CHR '' '', CHR 0x09, CHR 0x0A, CHR 0x0B, CHR 0x0C, CHR 0x0D])"

definition trimSpaceASCII :: "string \<Rightarrow> string" where
  "trimSpaceASCII s = rev (dropWhile isSpaceASCII (rev (dropWhile isSpaceASCII s)))"

fun insertBy :: "('a \<Rightarrow> 'a \<Rightarrow> bool) \<Rightarrow> 'a \<Rightarrow> 'a list \<Rightarrow> 'a list" where
  "insertBy lt x [] = [x]"
| "insertBy lt x (y # ys) = (if lt x y then x # y # ys else y # insertBy lt x ys)"

definition insertionSort :: "('a \<Rightarrow> 'a \<Rightarrow> bool) \<Rightarrow> 'a list \<Rightarrow> 'a list" where
  "insertionSort lt xs = foldr (insertBy lt) xs []"

definition dirName :: "string \<Rightarrow> string" where
  "dirName p =
     (let d = rev (dropWhile (\<lambda>c. c \<noteq> CHR ''/'') (rev p))
      in if d = [] then ''.'' else if d = ''/'' then ''/'' else butlast d)"

definition baseName :: "string \<Rightarrow> string" where
  "baseName p = rev (takeWhile (\<lambda>c. c \<noteq> CHR ''/'') (rev p))"

definition joinPath :: "string \<Rightarrow> string \<Rightarrow> string" where
  "joinPath a b = (if a = ''/'' then a @ b else a @ ''/'' @ b)"

definition sumDigest :: "string \<Rightarrow> 128 word" where
  "sumDigest s = word_of_nat (sum_list (map of_char s))"

definition csvLine :: "string list \<Rightarrow> string" where
  "csvLine cols = Join cols '','' @ newline"

definition demoLib :: golib where
  "demoLib =
     \<lparr>filepath_Dir = dirName, filepath_Join = joinPath, filepath_Base = baseName,
      strings_ToLower = toLowerASCII, strings_TrimSpace = trimSpaceASCII,
      sort_Slice = insertionSort, sort_Strings = insertionSort (<),
      md5_Sum = sumDigest,
      time_Format = (\<lambda>layout t. layout @ ''@'' @ FormatInt t),
      csv_Record = csvLine,
      toml_Unmarshal = (\<lambda>s. Inl ''not supported''),
      toml_Marshal = (\<lambda>c. Inr (MinimaxSecret c @ newline @ MinimaxGroup c)),
      json_Upload = (\<lambda>body. Inr (7, 0, ''success'')),
      json_Clone = (\<lambda>body. Inr (0, body)),
      list_Update = (\<lambda>l ms. (l, NoCmd)),
      textinput_Update = (\<lambda>ti ms. (ti, NoCmd)),
      spinner_Update = (\<lambda>ms. NoCmd)\<rparr>"

text \<open>
  A world with a music directory: four files and a subdirectory with a copy of one. The remote service
  accepts every upload except that of the content \<open>bad\<close>, where the network fails.
\<close>

definition demoHttp :: "request \<Rightarrow> reply" where
  "demoHttp req =
     (case req of
        UploadRequest k f content \<Rightarrow>
          if content = ''bad'' then DoFailed ''network error'' else Reply 200 ''7''
      | CloneRequest g k fileID voiceID \<Rightarrow> Reply 200 ''ok'')"

definition demoWorld :: world where
  "demoWorld =
     \<lparr>files = [''/music/b.wav'' \<mapsto> ''ab'', ''/music/A.txt'' \<mapsto> ''text'',
               ''/music/a.mp3'' \<mapsto> ''ba'', ''/music/bad.mp3'' \<mapsto> ''bad'',
               ''/music/sub/copy.m4a'' \<mapsto> ''ab'',
               ''/home/u/.minimax/config.toml'' \<mapsto> [CHR '' '', CHR 0x0A]],
      dirs = {''/'', ''/music'', ''/music/sub'', ''/home/u''},
      entries = (\<lambda>p. if p = ''/music''
                     then [\<lparr>entryName = ''b.wav'', entryIsDir = False\<rparr>,
                           \<lparr>entryName = ''sub'', entryIsDir = True\<rparr>,
                           \<lparr>entryName = ''A.txt'', entryIsDir = False\<rparr>,
                           \<lparr>entryName = ''a.mp3'', entryIsDir = False\<rparr>,
                           \<lparr>entryName = ''bad.mp3'', entryIsDir = False\<rparr>]
                     else if p = ''/music/sub''
                     then [\<lparr>entryName = ''copy.m4a'', entryIsDir = False\<rparr>]
                     else if p = ''/'' then [\<lparr>entryName = ''music'', entryIsDir = True\<rparr>]
                     else []),
      fails = (\<lambda>op. None),
      absolute = (\<lambda>p. p),
      now = (\<lambda>k. 1000 + int k),
      ticks = 0,
      http = demoHttp,
      sent = [],
      homeDir = ''/home/u'',
      workDir = ''/music''\<rparr>"

definition demoPaths :: Paths where
  "demoPaths = (case ResolvePaths demoLib demoWorld of Inr ps \<Rightarrow> ps)"

definition demoConfig :: Config where
  "demoConfig = \<lparr>MinimaxSecret = ''key'', MinimaxGroup = ''group''\<rparr>"

definition fileAt :: "string \<Rightarrow> fileItem" where
  "fileAt p = \<lparr>name = baseName p, path = p, isDir = False, isParent = False\<rparr>"

definition demoBrowser :: model where
  \<comment> \<open>the model after startup with complete credentials and the first directory load\<close>
  "demoBrowser =
     (let m = newModel demoWorld demoConfig demoPaths ''/music'' in
      case runCmd demoLib demoWorld (LoadDirectoryCmd (rootPath m)) of
        (Some ms, w) \<Rightarrow> fst (Update demoLib w m ms))"

section \<open>Notions the properties are stated with\<close>

text \<open>
  A path has an allowed extension when \<open>toggleSelection\<close> lets it through its switch.
  The invariant of the selection: the order holds every selected path once, and the
  map holds exactly those paths, each with the value true. \<open>toggles\<close> is a sequence
  of \<open>n\<close> toggles of the same entry.
\<close>

definition allowedExt :: "golib \<Rightarrow> string \<Rightarrow> bool" where
  "allowedExt lib p = (strings_ToLower lib (filepath_Ext p) \<in> {''.mp3'', ''.m4a'', ''.wav''})"

definition selectionInv :: "model \<Rightarrow> bool" where
  "selectionInv m =
     (distinct (selectedOrder m) \<and> Mapping.keys (selected m) = set (selectedOrder m)
      \<and> (\<forall>p \<in> set (selectedOrder m). Mapping.lookup (selected m) p = Some True))"

definition toggles :: "golib \<Rightarrow> fileItem \<Rightarrow> nat \<Rightarrow> model \<Rightarrow> model" where
  "toggles lib item n = ((\<lambda>m. toggleSelection lib m item) ^^ n)"

definition demoSelected :: model where
  "demoSelected =
     toggleSelection demoLib (toggleSelection demoLib demoBrowser (fileAt ''/music/a.mp3''))
       (fileAt ''/music/b.wav'')"

definition demoAt :: "nat \<Rightarrow> model" where
  \<comment> \<open>the browser with the cursor moved to the k-th line of the list\<close>
  "demoAt k = demoBrowser\<lparr>list := (list demoBrowser)\<lparr>index := k\<rparr>\<rparr>"

text \<open>
  \<open>tea.Quit\<close> makes the runtime stop: the program is over, whatever the \<open>state\<close> field
  holds. What the user is in after a dispatch is therefore either a view or nothing.
\<close>

datatype phase = Showing appState | Terminated

definition phaseAfter :: "model \<times> cmd \<times> world \<Rightarrow> phase" where
  "phaseAfter r =
     (case r of (m, c, w) \<Rightarrow> if c = Quit \<or> c = Panic then Terminated else Showing (state m))"

definition demoFirstRun :: model where
  \<comment> \<open>the model of a first run: no credentials are stored\<close>
  "demoFirstRun = newModel demoWorld emptyConfig demoPaths ''/music''"

text \<open>
  \<open>readable w p content\<close>: \<open>GenerateVoiceID\<close> can resolve, open and read the file at \<open>p\<close>,
  and its bytes are \<open>content\<close>. \<open>hexTail\<close> is the last six characters of the hexadecimal
  digest of a content.
\<close>

definition readable :: "world \<Rightarrow> string \<Rightarrow> string \<Rightarrow> bool" where
  "readable w p content =
     (fails w (OpAbs p) = None \<and> fails w (OpOpen (absolute w p)) = None
      \<and> fails w (OpCopy (absolute w p)) = None \<and> files w (absolute w p) = Some content)"

definition hexDigest :: "golib \<Rightarrow> string \<Rightarrow> string" where
  "hexDigest lib content = EncodeToString (Sum_bytes (md5_Sum lib content))"

definition hexTail :: "golib \<Rightarrow> string \<Rightarrow> string" where
  "hexTail lib content = drop 26 (hexDigest lib content)"

definition voiceIDs :: "request list \<Rightarrow> string list" where
  \<comment> \<open>the voice identifiers of the clone requests among the requests sent, in order\<close>
  "voiceIDs rs =
     concat (map (\<lambda>r. case r of CloneRequest g k f v \<Rightarrow> [v] | UploadRequest k f c \<Rightarrow> []) rs)"

text \<open>
  \<open>exportPath\<close> is the file \<open>ToCSV\<close> writes: its name carries the time of the call.
  \<open>exportCanWrite lib w dir n\<close>: the destination is named and exists or can be made,
  and the file can be created and takes the header and \<open>n\<close> rows.
\<close>

definition exportPath :: "golib \<Rightarrow> world \<Rightarrow> string \<Rightarrow> string" where
  "exportPath lib w dir =
     filepath_Join lib dir
       (''minimax_voice_export_'' @ time_Format lib ''20060102_150405'' (now w (ticks w)) @ ''.csv'')"

definition exportCanWrite :: "golib \<Rightarrow> world \<Rightarrow> string \<Rightarrow> nat \<Rightarrow> bool" where
  "exportCanWrite lib w dir n =
     (dir \<noteq> [] \<and> fails w (OpMkdirAll dir) = None
      \<and> fails w (OpCreate (exportPath lib w dir)) = None
      \<and> (\<forall>k \<in> {0..n}. fails w (OpWrite (exportPath lib w dir) k) = None))"

definition demoRecords :: "Record list" where
  \<comment> \<open>one record of a success, and one of a failure whose time was never set\<close>
  "demoRecords =
     [\<lparr>FilePath = ''/music/a.mp3'', MinimaxFileID = ''7'',
       MinimaxVoiceID = ''minimax-voice-0000c3'', Status = ''success'', ErrorReason = [],
       UpdatedAt = 1001\<rparr>,
      \<lparr>FilePath = ''/music/bad.mp3'', MinimaxFileID = [], MinimaxVoiceID = [],
       Status = ''failed'', ErrorReason = ''network error'', UpdatedAt = 0\<rparr>]"

text \<open>
  What \<open>sort.Slice\<close> promises: the slice afterwards is a rearrangement of the slice
  before, and no element of it is less than an element in front of it. The sort need not
  be stable.
\<close>

definition sortsBy :: "(dirEntry \<Rightarrow> dirEntry \<Rightarrow> bool) \<Rightarrow> dirEntry list \<Rightarrow> dirEntry list \<Rightarrow> bool" where
  "sortsBy lt xs ys = (mset ys = mset xs \<and> sorted_wrt (\<lambda>a b. \<not> lt b a) ys)"

definition parentItems :: "golib \<Rightarrow> string \<Rightarrow> fileItem list" where
  \<comment> \<open>the synthetic entry in front of a listing: none when the parent of the path
      is the path\<close>
  "parentItems lib p = (if filepath_Dir lib p \<noteq> p then [parentItem (filepath_Dir lib p)] else [])"

definition demoShuffled :: world where
  \<comment> \<open>the example world with the entries of every directory stored in reverse\<close>
  "demoShuffled = demoWorld\<lparr>entries := (\<lambda>p. rev (entries demoWorld p))\<rparr>"









section \<open>Facts about one job\<close>

text \<open>
  The digest in hexadecimal has 32 characters, so the slice of its last six never
  panics. A job run with a client always delivers a step message with one record for
  its path, marked success exactly when the message carries no error.
\<close>

lemma length_hexDigest: "length (hexDigest lib content) = 32"
  by (simp add: hexDigest_def EncodeToString_def Sum_bytes_def length_concat o_def sum_list_triv)

lemma GenerateVoiceID_readable:
  assumes "readable w p content"
  shows "GenerateVoiceID lib w p = Inr (''minimax-voice-'' @ hexTail lib content)"
  using assms length_hexDigest[of lib content]
  by (simp add: readable_def GenerateVoiceID_def filepath_Abs_def os_Open_def io_Copy_def
        hexTail_def hexDigest_def Let_def)

lemma time_Now_keeps:
  "time_Now w = (t, w') \<Longrightarrow>
     sent w' = sent w \<and> files w' = files w \<and> fails w' = fails w \<and> absolute w' = absolute w
     \<and> http w' = http w \<and> dirs w' = dirs w"
  by (auto simp: time_Now_def)

lemma time_Now_readable: "time_Now w = (t, w') \<Longrightarrow> readable w' p c = readable w p c"
  by (auto simp: time_Now_def readable_def)

lemma cloneFileCmd_result:
  assumes "cloneFileCmd lib w (Some c) p = (r, w')"
  shows "\<exists>s rec. r = Some s \<and> stepPath s = p \<and> stepRecord s = Some rec \<and> FilePath rec = p
           \<and> (stepErr s = None \<longrightarrow> Status rec = ''success'' \<and> ErrorReason rec = [])
           \<and> (stepErr s \<noteq> None \<longrightarrow> Status rec = ''failed'' \<and> stepErr s = Some (ErrorReason rec))"
  using assms unfolding cloneFileCmd_def Let_def
  by (auto simp: failedRecord_def split: prod.splits sum.splits)

section \<open>The selection set\<close>

lemma isSelected_iff: "selectionInv m \<Longrightarrow> isSelected m p \<longleftrightarrow> p \<in> set (selectedOrder m)"
  unfolding selectionInv_def isSelected_def
  by (auto split: option.splits simp: keys_is_none_rep Option.is_none_def)

lemma lookup_delete_if:
  "Mapping.lookup (Mapping.delete k s) k' = (if k = k' then None else Mapping.lookup s k')"
  by transfer simp

lemma update_same:
  "Mapping.lookup s p = Some v \<Longrightarrow> Mapping.update p v s = s"
  by (rule mapping_eqI) (auto simp add: lookup_update')

lemma delete_update_fresh:
  "p \<notin> Mapping.keys s \<Longrightarrow> Mapping.delete p (Mapping.update p v s) = s"
  by (rule mapping_eqI) (auto simp add: lookup_update' lookup_delete_if keys_is_none_rep Option.is_none_def)

lemma toggle_off:
  assumes "selectionInv m" "\<not> isDir item" "allowedExt lib (path item)" "isSelected m (path item)"
  shows "selected (toggleSelection lib m item) = Mapping.delete (path item) (selected m)"
    and "selectedOrder (toggleSelection lib m item) = remove1 (path item) (selectedOrder m)"
    and "selectionInv (toggleSelection lib m item)"
    and "\<not> isSelected (toggleSelection lib m item) (path item)"
  using assms
  by (auto simp: toggleSelection_def allowedExt_def Let_def selectionInv_def isSelected_def
      lookup_delete_if keys_is_none_rep Option.is_none_def split: option.splits)

lemma toggle_on:
  assumes "selectionInv m" "\<not> isDir item" "allowedExt lib (path item)" "\<not> isSelected m (path item)"
  shows "selected (toggleSelection lib m item) = Mapping.update (path item) True (selected m)"
    and "selectedOrder (toggleSelection lib m item) = selectedOrder m @ [path item]"
    and "selectionInv (toggleSelection lib m item)"
    and "isSelected (toggleSelection lib m item) (path item)"
  using assms isSelected_iff[OF assms(1), of "path item"]
  by (auto simp: toggleSelection_def allowedExt_def Let_def selectionInv_def isSelected_def
      lookup_update' split: option.splits)

lemma toggle_rejected:
  assumes "isDir item \<or> \<not> allowedExt lib (path item)"
  shows "selected (toggleSelection lib m item) = selected m"
    and "selectedOrder (toggleSelection lib m item) = selectedOrder m"
  using assms by (auto simp: toggleSelection_def allowedExt_def Let_def)


lemma toggle_twice:
  assumes inv: "selectionInv m"
  shows "selected (toggles lib item 2 m) = selected m"
    and "selectedOrder (toggles lib item 2 m) =
           (if isDir item \<or> \<not> allowedExt lib (path item) \<or> \<not> isSelected m (path item)
            then selectedOrder m
            else remove1 (path item) (selectedOrder m) @ [path item])"
    and "selectionInv (toggles lib item 2 m)"
proof -
  let ?t = "toggleSelection lib m item"
  have two: "toggles lib item 2 m = toggleSelection lib ?t item"
    by (simp add: toggles_def numeral_2_eq_2)
  consider (rej) "isDir item \<or> \<not> allowedExt lib (path item)"
    | (on) "\<not> isDir item" "allowedExt lib (path item)" "isSelected m (path item)"
    | (off) "\<not> isDir item" "allowedExt lib (path item)" "\<not> isSelected m (path item)"
    by blast
  then have "selected (toggles lib item 2 m) = selected m
      \<and> selectedOrder (toggles lib item 2 m) =
           (if isDir item \<or> \<not> allowedExt lib (path item) \<or> \<not> isSelected m (path item)
            then selectedOrder m
            else remove1 (path item) (selectedOrder m) @ [path item])
      \<and> selectionInv (toggles lib item 2 m)"
  proof cases
    case rej
    have "selectedOrder ?t = selectedOrder m" "selected ?t = selected m"
      using toggle_rejected[OF rej] by simp_all
    moreover have "selectionInv ?t"
      using inv calculation by (simp add: selectionInv_def)
    ultimately show ?thesis
      using rej toggle_rejected[OF rej, of ?t] inv by (auto simp: two selectionInv_def)
  next
    case on
    note a = toggle_off[OF inv on]
    note b = toggle_on[OF a(3) on(1,2) a(4)]
    have "Mapping.lookup (selected m) (path item) = Some True"
      using inv on(3) by (auto simp: selectionInv_def isSelected_def split: option.splits)
    then show ?thesis
      using on a b by (simp add: two update_same)
  next
    case off
    note a = toggle_on[OF inv off]
    note b = toggle_off[OF a(3) off(1,2) a(4)]
    have fresh: "path item \<notin> set (selectedOrder m)"
      using isSelected_iff[OF inv] off(3) by simp
    then have "path item \<notin> Mapping.keys (selected m)"
      using inv by (simp add: selectionInv_def)
    then show ?thesis
      using off a b fresh by (simp add: two delete_update_fresh remove1_append)
  qed
  then show "selected (toggles lib item 2 m) = selected m"
    and "selectedOrder (toggles lib item 2 m) =
           (if isDir item \<or> \<not> allowedExt lib (path item) \<or> \<not> isSelected m (path item)
            then selectedOrder m
            else remove1 (path item) (selectedOrder m) @ [path item])"
    and "selectionInv (toggles lib item 2 m)"
    by simp_all
qed

lemma toggles_add: "toggles lib item (a + b) m = toggles lib item a (toggles lib item b m)"
  by (simp add: toggles_def funpow_add)

lemma moved_to_end_fixed:
  assumes "distinct xs"
  shows "remove1 p (remove1 p xs @ [p]) @ [p] = remove1 p xs @ [p]"
proof -
  have "p \<notin> set (remove1 p xs)"
    using assms by simp
  then show ?thesis
    by (simp add: remove1_append remove1_idem)
qed

lemma toggles_even:
  assumes "selectionInv m"
  shows "selected (toggles lib item (2 * k) m) = selected m
       \<and> selectionInv (toggles lib item (2 * k) m)
       \<and> selectedOrder (toggles lib item (2 * k) m) =
           (if k = 0 \<or> isDir item \<or> \<not> allowedExt lib (path item)
               \<or> \<not> isSelected m (path item)
            then selectedOrder m
            else remove1 (path item) (selectedOrder m) @ [path item])"
proof (induction k)
  case 0
  show ?case using assms by (simp add: toggles_def)
next
  case (Suc k)
  let ?m = "toggles lib item (2 * k) m"
  have split: "toggles lib item (2 * Suc k) m = toggles lib item 2 ?m"
    using toggles_add[of lib item 2 "2 * k" m] by simp
  from Suc have inv: "selectionInv ?m" and sel: "selected ?m = selected m"
    by simp_all
  have same: "isSelected ?m (path item) = isSelected m (path item)"
    by (simp add: isSelected_def sel)
  have d: "distinct (selectedOrder m)"
    using assms by (simp add: selectionInv_def)
  let ?rej = "isDir item \<or> \<not> allowedExt lib (path item) \<or> \<not> isSelected m (path item)"
  have ord: "selectedOrder ?m = (if k = 0 \<or> ?rej then selectedOrder m
                                else remove1 (path item) (selectedOrder m) @ [path item])"
    using Suc by simp
  have "selected (toggles lib item 2 ?m) = selected m"
    using toggle_twice(1)[OF inv, of lib item] sel by simp
  moreover have "selectionInv (toggles lib item 2 ?m)"
    using toggle_twice(3)[OF inv, of lib item] .
  moreover have "selectedOrder (toggles lib item 2 ?m) =
      (if ?rej then selectedOrder m else remove1 (path item) (selectedOrder m) @ [path item])"
    using toggle_twice(2)[OF inv, of lib item] same ord
      moved_to_end_fixed[OF d, of "path item"]
    by (cases "k = 0") auto
  ultimately show ?case
    unfolding split by simp
qed

text \<open>
  C5, as amended. From a selection that satisfies its invariant, an even number of
  toggles of one entry gives back the membership map. It gives back the order too when
  the entry is rejected (a directory, an extension that is not allowed), when the path
  was not selected, or when there are no toggles at all. When the path was selected,
  the first toggle removes it and the second appends it: it ends last in the order,
  and the other paths keep their relative order.
\<close>

theorem toggle_even:
  assumes "selectionInv m" and "even n"
  shows "selected (toggles lib item n m) = selected m
       \<and> set (selectedOrder (toggles lib item n m)) = set (selectedOrder m)
       \<and> selectedOrder (toggles lib item n m) =
           (if n = 0 \<or> isDir item \<or> \<not> allowedExt lib (path item)
               \<or> \<not> isSelected m (path item)
            then selectedOrder m
            else remove1 (path item) (selectedOrder m) @ [path item])"
proof -
  from assms(2) obtain k where n: "n = 2 * k"
    by (auto elim: evenE)
  have "isSelected m (path item) \<Longrightarrow> path item \<in> set (selectedOrder m)"
    using isSelected_iff[OF assms(1)] by simp
  then have "\<not> (isDir item \<or> \<not> allowedExt lib (path item) \<or> \<not> isSelected m (path item)) \<Longrightarrow>
      set (remove1 (path item) (selectedOrder m) @ [path item]) = set (selectedOrder m)"
    using assms(1) by (auto simp: selectionInv_def)
  then show ?thesis
    using toggles_even[OF assms(1), of lib item k] unfolding n by auto
qed

text \<open>
  With \<open>a.mp3\<close> selected before \<open>b.wav\<close>, two toggles of \<open>a.mp3\<close> keep both selected and
  leave \<open>a.mp3\<close> behind \<open>b.wav\<close>.
\<close>

theorem toggle_even_witness:
  "selectionInv demoSelected \<and> even (2::nat)
   \<and> selected (toggles demoLib (fileAt ''/music/a.mp3'') 2 demoSelected) = selected demoSelected
   \<and> selectedOrder (toggles demoLib (fileAt ''/music/a.mp3'') 2 demoSelected)
       = [''/music/b.wav'', ''/music/a.mp3'']"
proof -
  have inv: "selectionInv demoSelected"
    by code_simp
  have ev: "even (2::nat)"
    by simp
  have sel: "isSelected demoSelected ''/music/a.mp3''"
    by code_simp
  have ext: "allowedExt demoLib ''/music/a.mp3''"
    by code_simp
  have ord: "selectedOrder demoSelected = [''/music/a.mp3'', ''/music/b.wav'']"
    by code_simp
  show ?thesis
    using toggle_even[OF inv ev, of demoLib "fileAt ''/music/a.mp3''"] inv sel ext ord
    by (simp add: fileAt_def)
qed

text \<open>
  C5 as stated fails there: the order after the two toggles is not the order before.
\<close>

theorem toggle_twice_counterexample:
  "selectionInv demoSelected \<and> even (2::nat)
   \<and> selectedOrder (toggles demoLib (fileAt ''/music/a.mp3'') 2 demoSelected)
       \<noteq> selectedOrder demoSelected"
  by code_simp

section \<open>Rejected input in the browser\<close>

text \<open>
  C7, as amended. In the browser, a toggle key on a directory entry changes nothing and
  shows nothing: the model, the command and the world are as before. A toggle key on
  a file whose lower-cased extension is not allowed, the clone key with nothing
  selected, and the export key with no results each set the error message to a fixed
  non-empty text and change nothing else: the state, the selection with its order and
  the results are as before.
\<close>

theorem rejected_input:
  assumes "state m = stateBrowser"
  shows "((key = '' '' \<or> key = ''x'') \<and> SelectedItem (list m) = Some item \<and> isDir item
           \<longrightarrow> Update lib w m (KeyMsg key) = (m, NoCmd, w))
       \<and> ((key = '' '' \<or> key = ''x'') \<and> SelectedItem (list m) = Some item \<and> \<not> isDir item
           \<and> \<not> allowedExt lib (path item)
           \<longrightarrow> Update lib w m (KeyMsg key) = (m\<lparr>errorMsg := txt_ext_only\<rparr>, NoCmd, w))
       \<and> (Mapping.is_empty (selected m)
           \<longrightarrow> Update lib w m (KeyMsg ''c'') = (m\<lparr>errorMsg := txt_select_first\<rparr>, NoCmd, w))
       \<and> (results m = []
           \<longrightarrow> Update lib w m (KeyMsg ''e'') = (m\<lparr>errorMsg := txt_no_records\<rparr>, NoCmd, w))
       \<and> txt_ext_only \<noteq> [] \<and> txt_select_first \<noteq> [] \<and> txt_no_records \<noteq> []"
  using assms
  by (auto simp: Update_def handleKeyMsg_def updateBrowserKeys_def toggleKey_def
        toggleSelection_def allowedExt_def Let_def txt_ext_only_def txt_select_first_def
        txt_no_records_def)

text \<open>
  In the music directory the cursor starts on the parent entry, a directory; on the
  fourth line it is on \<open>A.txt\<close>. Nothing is selected and there are no results yet.
\<close>

theorem rejected_input_witness:
  "state demoBrowser = stateBrowser \<and> state (demoAt 3) = stateBrowser
   \<and> map_option isDir (SelectedItem (list demoBrowser)) = Some True
   \<and> Update demoLib demoWorld demoBrowser (KeyMsg '' '') = (demoBrowser, NoCmd, demoWorld)
   \<and> map_option path (SelectedItem (list (demoAt 3))) = Some ''/music/A.txt''
   \<and> Update demoLib demoWorld (demoAt 3) (KeyMsg ''x'')
       = ((demoAt 3)\<lparr>errorMsg := txt_ext_only\<rparr>, NoCmd, demoWorld)
   \<and> Mapping.is_empty (selected demoBrowser)
   \<and> Update demoLib demoWorld demoBrowser (KeyMsg ''c'')
       = (demoBrowser\<lparr>errorMsg := txt_select_first\<rparr>, NoCmd, demoWorld)
   \<and> results demoBrowser = []
   \<and> Update demoLib demoWorld demoBrowser (KeyMsg ''e'')
       = (demoBrowser\<lparr>errorMsg := txt_no_records\<rparr>, NoCmd, demoWorld)"
proof -
  have b: "state demoBrowser = stateBrowser"
    by code_simp
  have b3: "state (demoAt 3) = stateBrowser"
    by code_simp
  have dir: "SelectedItem (list demoBrowser) = Some (parentItem ''/'')"
    by code_simp
  have fl: "SelectedItem (list (demoAt 3)) = Some (fileAt ''/music/A.txt'')"
    by code_simp
  have ext: "\<not> allowedExt demoLib ''/music/A.txt''"
    by code_simp
  have none: "Mapping.is_empty (selected demoBrowser)"
    by code_simp
  have nores: "results demoBrowser = []"
    by code_simp
  show ?thesis
    using rejected_input[OF b, where key = "'' ''" and item = "parentItem ''/''"
                           and lib = demoLib and w = demoWorld]
      rejected_input[OF b3, where key = "''x''" and item = "fileAt ''/music/A.txt''"
                           and lib = demoLib and w = demoWorld]
      b b3 dir fl ext none nores
    by (simp add: parentItem_def fileAt_def)
qed

text \<open>
  C7 as stated fails for the directory entry: with no message shown before, the toggle
  key on it leaves the error message empty.
\<close>

theorem directory_toggle_counterexample:
  "state demoBrowser = stateBrowser
   \<and> map_option isDir (SelectedItem (list demoBrowser)) = Some True
   \<and> errorMsg (fst (Update demoLib demoWorld demoBrowser (KeyMsg '' ''))) = []"
  by code_simp

section \<open>The first run\<close>

text \<open>
  C6, as amended. With incomplete stored credentials the program starts in the Config
  state. The cancel key pressed in Config while the stored credentials are incomplete,
  whatever the text fields hold, never leads to the browser: the dispatcher leaves the
  model as it is, \<open>state\<close> still Config, and returns the quit command, which ends the
  program.
\<close>

theorem cancel_incomplete:
  assumes "\<not> IsComplete c"
  shows "state (newModel w0 c ps root) = stateConfig
       \<and> cfg (newModel w0 c ps root) = c
       \<and> (\<forall>m. state m = stateConfig \<and> \<not> IsComplete (cfg m)
              \<longrightarrow> Update lib w m (KeyMsg ''esc'') = (m, Quit, w)
                \<and> phaseAfter (Update lib w m (KeyMsg ''esc'')) = Terminated)"
  using assms
  by (auto simp: newModel_def initTextInputs_def Let_def Update_def handleKeyMsg_def
        updateConfig_def phaseAfter_def)

theorem cancel_incomplete_witness:
  "\<not> IsComplete emptyConfig
   \<and> state demoFirstRun = stateConfig \<and> \<not> IsComplete (cfg demoFirstRun)
   \<and> Update demoLib demoWorld demoFirstRun (KeyMsg ''esc'') = (demoFirstRun, Quit, demoWorld)"
proof -
  have e: "\<not> IsComplete emptyConfig"
    by (simp add: IsComplete_def emptyConfig_def)
  show ?thesis
    using cancel_incomplete[OF e, of demoWorld demoPaths "''/music''" demoLib demoWorld] e
    by (simp add: demoFirstRun_def)
qed

text \<open>
  C6 as stated fails on a first run: after the cancel key the user is not in the Config
  view, the program has ended.
\<close>

theorem cancel_first_run_counterexample:
  "state demoFirstRun = stateConfig \<and> \<not> IsComplete (cfg demoFirstRun)
   \<and> phaseAfter (Update demoLib demoWorld demoFirstRun (KeyMsg ''esc'')) \<noteq> Showing stateConfig"
  by code_simp

section \<open>Loading the credentials\<close>

text \<open>
  C10. When reading the configuration file does not fail for another reason, and the
  file is missing or what is left of its content after trimming white space is empty,
  \<open>Load\<close> returns the empty configuration and no error. Then \<open>main\<close> does not exit at
  this step: if the paths resolve, the directories can be made and the log file opens,
  it starts the UI, and the model is in the Config state.
\<close>

theorem load_missing_or_blank:
  assumes "fails w (OpReadFile p) = None"
    and "files w p = None \<or> (\<exists>d. files w p = Some d \<and> strings_TrimSpace lib d = [])"
  shows "Load lib w p = (emptyConfig, None)
       \<and> MinimaxSecret emptyConfig = [] \<and> MinimaxGroup emptyConfig = []
       \<and> (\<forall>w0 ps w2. ResolvePaths lib w0 = Inr ps \<and> EnsureDirs w0 ps = (None, w)
              \<and> p = ConfigFile ps \<and> Setup w (LogFile ps) = (None, w2)
            \<longrightarrow> (\<exists>m. main lib w0 = Started m w2 \<and> state m = stateConfig))"
proof -
  have load: "Load lib w p = (emptyConfig, None)"
    using assms by (auto simp: Load_def os_ReadFile_def Let_def)
  have start: "state (Run w2 emptyConfig ps d) = stateConfig" for w2 ps d
    by (simp add: Run_def newModel_def initTextInputs_def Let_def IsComplete_def emptyConfig_def)
  show ?thesis
    using load start
    by (auto simp: main_def emptyConfig_def Let_def)
qed

text \<open>
  In the example world the configuration file holds a blank and a line feed, and a
  file at another path is missing. Both load as the empty configuration, and \<open>main\<close>
  starts the UI in the Config state.
\<close>

theorem load_missing_or_blank_witness:
  "files demoWorld ''/nowhere/config.toml'' = None
   \<and> Load demoLib demoWorld ''/nowhere/config.toml'' = (emptyConfig, None)
   \<and> ConfigFile demoPaths = ''/home/u/.minimax/config.toml''
   \<and> files demoWorld (ConfigFile demoPaths) = Some [CHR '' '', CHR 0x0A]
   \<and> strings_TrimSpace demoLib [CHR '' '', CHR 0x0A] = []
   \<and> Load demoLib (snd (EnsureDirs demoWorld demoPaths)) (ConfigFile demoPaths)
       = (emptyConfig, None)
   \<and> (case main demoLib demoWorld of
         Started m w \<Rightarrow> state m = stateConfig
       | Exit n e \<Rightarrow> False)"
proof -
  let ?w = "snd (EnsureDirs demoWorld demoPaths)"
  let ?p = "ConfigFile demoPaths"
  let ?w2 = "snd (Setup ?w (LogFile demoPaths))"
  have f: "fails demoWorld (OpReadFile q) = None" for q
    by (simp add: demoWorld_def)
  have n: "files demoWorld ''/nowhere/config.toml'' = None"
    by (simp add: demoWorld_def)
  have p: "?p = ''/home/u/.minimax/config.toml''"
    by code_simp
  have c0: "files demoWorld ?p = Some [CHR '' '', CHR 0x0A]"
    by (simp add: p) (simp add: demoWorld_def)
  have f': "fails ?w (OpReadFile ?p) = None"
    by code_simp
  have c: "files ?w ?p = Some [CHR '' '', CHR 0x0A]"
    by code_simp
  have t: "strings_TrimSpace demoLib [CHR '' '', CHR 0x0A] = []"
    by code_simp
  have r: "ResolvePaths demoLib demoWorld = Inr demoPaths"
    by code_simp
  have "fst (EnsureDirs demoWorld demoPaths) = None"
    by code_simp
  then have e: "EnsureDirs demoWorld demoPaths = (None, ?w)"
    by (simp add: prod_eq_iff)
  have "fst (Setup ?w (LogFile demoPaths)) = None"
    by code_simp
  then have s: "Setup ?w (LogFile demoPaths) = (None, ?w2)"
    by (simp add: prod_eq_iff)
  have a: "files ?w ?p = None \<or> (\<exists>d. files ?w ?p = Some d \<and> strings_TrimSpace demoLib d = [])"
    using c t by simp
  have b: "files demoWorld ''/nowhere/config.toml'' = None
      \<or> (\<exists>d. files demoWorld ''/nowhere/config.toml'' = Some d \<and> strings_TrimSpace demoLib d = [])"
    using n by simp
  from load_missing_or_blank[OF f' a] r e s
  obtain m where "main demoLib demoWorld = Started m ?w2" "state m = stateConfig"
    by blast
  then show ?thesis
    using load_missing_or_blank[OF f' a] load_missing_or_blank[OF f b] n p c0 t
    by simp
qed

section \<open>The voice identifier\<close>

text \<open>
  C8. Two files that \<open>GenerateVoiceID\<close> can read and that hold the same bytes get the
  same identifier, in whatever worlds and under whatever paths: the identifier is
  computed from the bytes alone.
\<close>

theorem voice_id_content_only:
  assumes "readable w1 p1 content" and "readable w2 p2 content"
  shows "GenerateVoiceID lib w1 p1 = GenerateVoiceID lib w2 p2
       \<and> GenerateVoiceID lib w1 p1 = Inr (''minimax-voice-'' @ hexTail lib content)"
  using assms by (simp add: GenerateVoiceID_readable)

text \<open>
  In the example world \<open>b.wav\<close> and \<open>sub/copy.m4a\<close> hold the same two bytes.
\<close>

theorem voice_id_content_only_witness:
  "readable demoWorld ''/music/b.wav'' ''ab'' \<and> readable demoWorld ''/music/sub/copy.m4a'' ''ab''
   \<and> GenerateVoiceID demoLib demoWorld ''/music/b.wav''
       = GenerateVoiceID demoLib demoWorld ''/music/sub/copy.m4a''
   \<and> GenerateVoiceID demoLib demoWorld ''/music/b.wav'' = Inr ''minimax-voice-0000c3''"
proof -
  have a: "readable demoWorld ''/music/b.wav'' ''ab''"
    by (simp add: readable_def demoWorld_def)
  have b: "readable demoWorld ''/music/sub/copy.m4a'' ''ab''"
    by (simp add: readable_def demoWorld_def)
  have t: "hexTail demoLib ''ab'' = ''0000c3''"
    by code_simp
  show ?thesis
    using voice_id_content_only[OF a b, of demoLib] a b t by auto
qed
lemma voiceIDs_append: "voiceIDs (xs @ ys) = voiceIDs xs @ voiceIDs ys"
  by (simp add: voiceIDs_def)

lemma UploadFile_sent:
  "UploadFile lib w c p = (r, w') \<Longrightarrow> voiceIDs (sent w') = voiceIDs (sent w)"
  unfolding UploadFile_def Let_def
  by (auto simp: voiceIDs_def split: if_splits sum.splits option.splits reply.splits prod.splits)

lemma CloneWithFileID_sent:
  "CloneWithFileID lib w c f v = (r, w') \<Longrightarrow>
     (voiceIDs (sent w') = voiceIDs (sent w) \<or> voiceIDs (sent w') = voiceIDs (sent w) @ [v])
     \<and> (\<not> isl r \<longrightarrow> voiceIDs (sent w') = voiceIDs (sent w) @ [v])"
  unfolding CloneWithFileID_def Let_def
  by (auto simp: voiceIDs_def split: if_splits sum.splits option.splits reply.splits prod.splits)


lemma cloneFileCmd_sent:
  assumes rd: "readable w p content" and run: "cloneFileCmd lib w (Some c) p = (r, w')"
  shows "\<exists>ids. voiceIDs (sent w') = voiceIDs (sent w) @ ids
           \<and> set ids \<subseteq> {''minimax-voice-'' @ hexTail lib content}
           \<and> (\<forall>s. r = Some s \<and> stepErr s = None
                 \<longrightarrow> ids = [''minimax-voice-'' @ hexTail lib content])"
proof -
  let ?v = "''minimax-voice-'' @ hexTail lib content"
  obtain t w0 where t0: "time_Now w = (t, w0)"
    by (cases "time_Now w")
  have g: "GenerateVoiceID lib w0 p = Inr ?v"
    using GenerateVoiceID_readable rd time_Now_readable[OF t0] by simp
  have s0: "sent w0 = sent w"
    using time_Now_keeps[OF t0] by simp
  obtain u w1 where up: "UploadFile lib w0 c p = (u, w1)"
    by (cases "UploadFile lib w0 c p")
  have s1: "voiceIDs (sent w1) = voiceIDs (sent w)"
    using UploadFile_sent[OF up] s0 by simp
  show ?thesis
  proof (cases u)
    case (Inl e)
    then have "voiceIDs (sent w') = voiceIDs (sent w)" "\<forall>s. r = Some s \<longrightarrow> stepErr s \<noteq> None"
      using run t0 g up s1 unfolding cloneFileCmd_def Let_def
      by (auto simp: time_Now_def split: prod.splits)
    then show ?thesis by auto
  next
    case (Inr fid)
    obtain q w2 where cl: "CloneWithFileID lib w1 c fid ?v = (q, w2)"
      by (cases "CloneWithFileID lib w1 c fid ?v")
    note k = CloneWithFileID_sent[OF cl]
    have end_sent: "voiceIDs (sent w') = voiceIDs (sent w2)"
      using run t0 g up Inr cl unfolding cloneFileCmd_def Let_def
      by (auto simp: time_Now_def split: prod.splits sum.splits)
    have ok: "\<forall>s. r = Some s \<and> stepErr s = None \<longrightarrow> \<not> isl q"
      using run t0 g up Inr cl unfolding cloneFileCmd_def Let_def
      by (auto simp: time_Now_def split: prod.splits sum.splits)
    show ?thesis
      using k end_sent ok s1 by auto
  qed
qed

lemma CloneVoice_sent:
  assumes rd: "readable w p content" and run: "CloneVoice lib w c p = (r, w')"
  shows "\<exists>ids. voiceIDs (sent w') = voiceIDs (sent w) @ ids
           \<and> set ids \<subseteq> {''minimax-voice-'' @ hexTail lib content}
           \<and> (\<not> isl r \<longrightarrow> ids = [''minimax-voice-'' @ hexTail lib content])"
proof -
  let ?v = "''minimax-voice-'' @ hexTail lib content"
  have g: "GenerateVoiceID lib w p = Inr ?v"
    using GenerateVoiceID_readable rd by simp
  obtain u w1 where up: "UploadFile lib w c p = (u, w1)"
    by (cases "UploadFile lib w c p")
  have s1: "voiceIDs (sent w1) = voiceIDs (sent w)"
    using UploadFile_sent[OF up] by simp
  show ?thesis
  proof (cases "apiKey c = [] \<or> groupID c = []")
    case True
    then have "w' = w" "isl r"
      using run by (auto simp: CloneVoice_def)
    then show ?thesis by simp
  next
    case False
    show ?thesis
    proof (cases u)
      case (Inl e)
      then have "w' = w1" "isl r"
        using run g up False by (auto simp: CloneVoice_def)
      then show ?thesis using s1 by simp
    next
      case (Inr fid)
      obtain q w2 where cl: "CloneWithFileID lib w1 c fid ?v = (q, w2)"
        by (cases "CloneWithFileID lib w1 c fid ?v")
      have "w' = w2" "\<not> isl r \<longrightarrow> \<not> isl q"
        using run g up False Inr cl by (auto simp: CloneVoice_def split: sum.splits)
      then show ?thesis
        using CloneWithFileID_sent[OF cl] s1 by auto
    qed
  qed
qed

lemma hexTail_digits: "set (hexTail lib content) \<subseteq> set hextable"
proof -
  have "hextable ! i \<in> set hextable" if "i < 16" for i
    using that by (intro nth_mem) (simp add: hextable_def)
  moreover have "(of_char b :: nat) div 16 < 16" "(of_char b :: nat) mod 16 < 16" for b :: char
    using of_char_mod_256[where ?'a = nat, of b]
    by (auto simp: less_mult_imp_div_less intro: le_less_trans)
  ultimately have "set (EncodeToString bs) \<subseteq> set hextable" for bs
    by (auto simp: EncodeToString_def)
  then show ?thesis
    using set_drop_subset[of 26 "hexDigest lib content"]
    by (auto simp: hexTail_def hexDigest_def)
qed

text \<open>
  C9. For a file that \<open>GenerateVoiceID\<close> can read, the identifier is the prefix
  \<open>minimax-voice-\<close> followed by the last six of the 32 hexadecimal digits of the digest
  of its bytes. A job for that file, run by \<open>cloneFileCmd\<close> or by \<open>CloneVoice\<close>, sends at
  most one clone request, and it carries this identifier; a job that succeeds has sent
  it. So a second file with other bytes whose digest ends in the same six digits gets
  the same identifier, and its job submits the same identifier.
\<close>

theorem truncated_id_submitted:
  assumes "readable w p content"
  shows "GenerateVoiceID lib w p = Inr (''minimax-voice-'' @ hexTail lib content)
       \<and> length (hexDigest lib content) = 32
       \<and> hexTail lib content = drop 26 (hexDigest lib content)
       \<and> length (hexTail lib content) = 6
       \<and> set (hexTail lib content) \<subseteq> set hextable
       \<and> (\<forall>c r w'. cloneFileCmd lib w (Some c) p = (r, w') \<longrightarrow>
            (\<exists>ids. voiceIDs (sent w') = voiceIDs (sent w) @ ids
                \<and> set ids \<subseteq> {''minimax-voice-'' @ hexTail lib content}
                \<and> (\<forall>s. r = Some s \<and> stepErr s = None
                      \<longrightarrow> ids = [''minimax-voice-'' @ hexTail lib content])))
       \<and> (\<forall>c r w'. CloneVoice lib w c p = (r, w') \<longrightarrow>
            (\<exists>ids. voiceIDs (sent w') = voiceIDs (sent w) @ ids
                \<and> set ids \<subseteq> {''minimax-voice-'' @ hexTail lib content}
                \<and> (\<not> isl r \<longrightarrow> ids = [''minimax-voice-'' @ hexTail lib content])))
       \<and> (\<forall>w2 p2 content2.
            readable w2 p2 content2 \<and> content2 \<noteq> content
            \<and> hexTail lib content2 = hexTail lib content \<longrightarrow>
              GenerateVoiceID lib w2 p2 = GenerateVoiceID lib w p
              \<and> (\<forall>c r w'. cloneFileCmd lib w2 (Some c) p2 = (r, w') \<longrightarrow>
                   (\<exists>ids. voiceIDs (sent w') = voiceIDs (sent w2) @ ids
                       \<and> set ids \<subseteq> {''minimax-voice-'' @ hexTail lib content}
                       \<and> (\<forall>s. r = Some s \<and> stepErr s = None
                             \<longrightarrow> ids = [''minimax-voice-'' @ hexTail lib content]))))"
proof (intro conjI allI impI)
  show "GenerateVoiceID lib w p = Inr (''minimax-voice-'' @ hexTail lib content)"
    by (rule GenerateVoiceID_readable[OF assms])
  show "length (hexDigest lib content) = 32"
    by (rule length_hexDigest)
  show "hexTail lib content = drop 26 (hexDigest lib content)"
    by (simp add: hexTail_def)
  show "length (hexTail lib content) = 6"
    by (simp add: hexTail_def length_hexDigest)
  show "set (hexTail lib content) \<subseteq> set hextable"
    by (rule hexTail_digits)
next
  fix c r w'
  assume "cloneFileCmd lib w (Some c) p = (r, w')"
  then show "\<exists>ids. voiceIDs (sent w') = voiceIDs (sent w) @ ids
      \<and> set ids \<subseteq> {''minimax-voice-'' @ hexTail lib content}
      \<and> (\<forall>s. r = Some s \<and> stepErr s = None
            \<longrightarrow> ids = [''minimax-voice-'' @ hexTail lib content])"
    by (rule cloneFileCmd_sent[OF assms])
next
  fix c r w'
  assume "CloneVoice lib w c p = (r, w')"
  then show "\<exists>ids. voiceIDs (sent w') = voiceIDs (sent w) @ ids
      \<and> set ids \<subseteq> {''minimax-voice-'' @ hexTail lib content}
      \<and> (\<not> isl r \<longrightarrow> ids = [''minimax-voice-'' @ hexTail lib content])"
    by (rule CloneVoice_sent[OF assms])
next
  fix w2 p2 content2
  assume h: "readable w2 p2 content2 \<and> content2 \<noteq> content
      \<and> hexTail lib content2 = hexTail lib content"
  then have rd: "readable w2 p2 content2" and eq: "hexTail lib content2 = hexTail lib content"
    by simp_all
  show "GenerateVoiceID lib w2 p2 = GenerateVoiceID lib w p"
    by (simp only: GenerateVoiceID_readable[OF rd] GenerateVoiceID_readable[OF assms] eq)
  fix c r w'
  assume "cloneFileCmd lib w2 (Some c) p2 = (r, w')"
  from cloneFileCmd_sent[OF rd this]
  show "\<exists>ids. voiceIDs (sent w') = voiceIDs (sent w2) @ ids
      \<and> set ids \<subseteq> {''minimax-voice-'' @ hexTail lib content}
      \<and> (\<forall>s. r = Some s \<and> stepErr s = None
            \<longrightarrow> ids = [''minimax-voice-'' @ hexTail lib content])"
    by (simp only: eq)
qed

text \<open>
  In the example world \<open>a.mp3\<close> holds the bytes \<open>ba\<close> and \<open>b.wav\<close> the bytes \<open>ab\<close>; the
  stand-in digest has the same last six digits for both. Both get the identifier
  \<open>minimax-voice-0000c3\<close>, and that is what the job for each of them submits.
\<close>

theorem truncated_id_submitted_witness:
  "readable demoWorld ''/music/a.mp3'' ''ba'' \<and> readable demoWorld ''/music/b.wav'' ''ab''
   \<and> ''ab'' \<noteq> ''ba'' \<and> hexTail demoLib ''ab'' = hexTail demoLib ''ba''
   \<and> GenerateVoiceID demoLib demoWorld ''/music/a.mp3'' = Inr ''minimax-voice-0000c3''
   \<and> GenerateVoiceID demoLib demoWorld ''/music/b.wav''
       = GenerateVoiceID demoLib demoWorld ''/music/a.mp3''
   \<and> voiceIDs (sent (snd (cloneFileCmd demoLib demoWorld (minimax demoBrowser) ''/music/a.mp3'')))
       = [''minimax-voice-0000c3'']
   \<and> voiceIDs (sent (snd (cloneFileCmd demoLib demoWorld (minimax demoBrowser) ''/music/b.wav'')))
       = [''minimax-voice-0000c3'']"
proof -
  have a: "readable demoWorld ''/music/a.mp3'' ''ba''"
    by (simp add: readable_def demoWorld_def)
  have b: "readable demoWorld ''/music/b.wav'' ''ab''"
    by (simp add: readable_def demoWorld_def)
  have t: "hexTail demoLib ''ba'' = ''0000c3''" "hexTail demoLib ''ab'' = ''0000c3''"
    by code_simp+
  have sa: "voiceIDs (sent (snd (cloneFileCmd demoLib demoWorld (minimax demoBrowser) ''/music/a.mp3'')))
      = [''minimax-voice-0000c3'']"
    by code_simp
  have sb: "voiceIDs (sent (snd (cloneFileCmd demoLib demoWorld (minimax demoBrowser) ''/music/b.wav'')))
      = [''minimax-voice-0000c3'']"
    by code_simp
  have ne: "''ab'' \<noteq> ''ba''"
    by simp
  note th = truncated_id_submitted[OF a, of demoLib]
  have ga: "GenerateVoiceID demoLib demoWorld ''/music/a.mp3''
      = Inr (''minimax-voice-'' @ hexTail demoLib ''ba'')"
    using th by (rule conjunct1)
  have "readable demoWorld ''/music/b.wav'' ''ab'' \<and> ''ab'' \<noteq> ''ba''
      \<and> hexTail demoLib ''ab'' = hexTail demoLib ''ba''"
    using b ne t by simp
  then have gb: "GenerateVoiceID demoLib demoWorld ''/music/b.wav''
      = GenerateVoiceID demoLib demoWorld ''/music/a.mp3''"
    using th[THEN conjunct2, THEN conjunct2, THEN conjunct2, THEN conjunct2, THEN conjunct2,
             THEN conjunct2, THEN conjunct2, THEN spec, THEN spec, THEN spec, THEN mp,
             THEN conjunct1, of demoWorld "''/music/b.wav''" "''ab''"]
    by simp
  have "GenerateVoiceID demoLib demoWorld ''/music/a.mp3'' = Inr ''minimax-voice-0000c3''"
    using ga t by simp
  then show ?thesis
    using a b ne t sa sb gb by (simp only: simp_thms)
qed

section \<open>The export\<close>

lemma write_rows_ok:
  assumes "\<forall>j < length recs. fails w (OpWrite p (k + j)) = None" and "files w p = Some d"
  shows "\<exists>w'. write_rows lib w p k recs = (None, w')
           \<and> files w' = (files w)(p \<mapsto> d @ concat (map (\<lambda>r. csv_Record lib (csv_row lib r)) recs))
           \<and> dirs w' = dirs w \<and> ticks w' = ticks w \<and> sent w' = sent w"
  using assms
proof (induction recs arbitrary: w k d)
  case Nil
  then show ?case by auto
next
  case (Cons r recs)
  let ?w1 = "w\<lparr>files := (files w)(p \<mapsto> d @ csv_Record lib (csv_row lib r))\<rparr>"
  have h: "fails w (OpWrite p k) = None"
    using Cons.prems(1) by force
  then have first: "csv_Write lib w p k (csv_row lib r) = (None, ?w1)"
    using Cons.prems(2) by (simp add: csv_Write_def)
  have "\<forall>j < length recs. fails ?w1 (OpWrite p (Suc k + j)) = None"
    using Cons.prems(1) by force
  moreover have "files ?w1 p = Some (d @ csv_Record lib (csv_row lib r))"
    by simp
  ultimately obtain w' where
    "write_rows lib ?w1 p (Suc k) recs = (None, w')"
    "files w' = (files ?w1)(p \<mapsto> (d @ csv_Record lib (csv_row lib r))
                                  @ concat (map (\<lambda>r. csv_Record lib (csv_row lib r)) recs))"
    "dirs w' = dirs ?w1" "ticks w' = ticks ?w1" "sent w' = sent ?w1"
    using Cons.IH[of ?w1 "Suc k" "d @ csv_Record lib (csv_row lib r)"] by blast
  then show ?case
    using first by (auto simp: fun_eq_iff)
qed

lemma ToCSV_ok:
  assumes can: "exportCanWrite lib w dir (length records)" and ne: "records \<noteq> []"
  shows "\<exists>w'. ToCSV lib w records dir = (Inr (exportPath lib w dir), w')
           \<and> files w' = (files w)(exportPath lib w dir \<mapsto>
                 concat (map (csv_Record lib) (csv_header # map (csv_row lib) records)))"
proof -
  let ?p = "exportPath lib w dir"
  let ?w1 = "w\<lparr>dirs := insert dir (dirs w)\<rparr>"
  let ?w2 = "?w1\<lparr>ticks := Suc (ticks w)\<rparr>"
  let ?w3 = "?w2\<lparr>files := (files w)(?p \<mapsto> [])\<rparr>"
  let ?w4 = "?w3\<lparr>files := (files ?w3)(?p \<mapsto> csv_Record lib csv_header)\<rparr>"
  from can have d: "dir \<noteq> []" and mk: "fails w (OpMkdirAll dir) = None"
    and cr: "fails w (OpCreate ?p) = None"
    and wr: "\<And>k. k \<le> length records \<Longrightarrow> fails w (OpWrite ?p k) = None"
    by (auto simp: exportCanWrite_def)
  have m: "os_MkdirAll w dir = (None, ?w1)"
    using mk by (simp add: os_MkdirAll_def)
  have t: "time_Now ?w1 = (now w (ticks w), ?w2)"
    by (simp add: time_Now_def)
  have c: "os_Create ?w2 ?p = (None, ?w3)"
    using cr by (simp add: os_Create_def)
  have h: "csv_Write lib ?w3 ?p 0 csv_header = (None, ?w4)"
    using wr[of 0] by (simp add: csv_Write_def)
  have "\<forall>j < length records. fails ?w4 (OpWrite ?p (1 + j)) = None"
    using wr by simp
  moreover have "files ?w4 ?p = Some (csv_Record lib csv_header)"
    by simp
  ultimately obtain w' where
    rows: "write_rows lib ?w4 ?p 1 records = (None, w')"
    and f: "files w' = (files ?w4)(?p \<mapsto> csv_Record lib csv_header
               @ concat (map (\<lambda>r. csv_Record lib (csv_row lib r)) records))"
    using write_rows_ok[of records ?w4 ?p 1 "csv_Record lib csv_header" lib] by blast
  have "ToCSV lib w records dir = (Inr ?p, w')"
    using d ne m t c h rows
    by (simp add: ToCSV_def exportPath_def Let_def)
  moreover have "files w' = (files w)(?p \<mapsto>
      concat (map (csv_Record lib) (csv_header # map (csv_row lib) records)))"
    using f by (simp add: o_def)
  ultimately show ?thesis by blast
qed

lemma ToCSV_empty: "\<exists>e w'. ToCSV lib w [] dir = (Inl e, w') \<and> files w' = files w"
  by (auto simp: ToCSV_def os_MkdirAll_def split: option.splits)

text \<open>
  C3. When the destination is named and can be made and the file can be created and
  written, the export of a non-empty list of M records returns the path of a file whose
  content is the CSV encoding of M+1 rows, one after the other: the header, then one row
  per record in the order of the list. A row has the six columns file path, remote file
  identifier, remote voice identifier, status, error reason and update time, in this
  order; the last is empty when the time is the zero time and is the formatted time
  otherwise, so it is empty only for the zero time as long as the formatted time is not
  empty. A record the pipeline made with status success has an empty error reason. The
  export of the empty list returns an error and leaves every file as it was.
\<close>

theorem export_rows:
  "(exportCanWrite lib w dir (length records) \<and> records \<noteq> [] \<longrightarrow>
      (\<exists>w'. ToCSV lib w records dir = (Inr (exportPath lib w dir), w')
          \<and> files w' = (files w)(exportPath lib w dir \<mapsto>
                concat (map (csv_Record lib) (csv_header # map (csv_row lib) records)))))
   \<and> length (csv_header # map (csv_row lib) records) = length records + 1
   \<and> csv_header = [''file_path'', ''minimax_file_id'', ''minimax_voice_id'', ''status'',
                     ''error_reason'', ''updated_at'']
   \<and> (\<forall>rec. csv_row lib rec =
            [FilePath rec, MinimaxFileID rec, MinimaxVoiceID rec, Status rec, ErrorReason rec,
             if IsZero (UpdatedAt rec) then [] else time_Format lib RFC3339 (UpdatedAt rec)])
   \<and> (\<forall>rec. time_Format lib RFC3339 (UpdatedAt rec) \<noteq> []
            \<longrightarrow> (csv_row lib rec ! 5 = [] \<longleftrightarrow> IsZero (UpdatedAt rec)))
   \<and> (\<forall>w0 c p s w1 rec.
          cloneFileCmd lib w0 (Some c) p = (Some s, w1) \<and> stepRecord s = Some rec
          \<and> Status rec = ''success'' \<longrightarrow> ErrorReason rec = [] \<and> csv_row lib rec ! 4 = [])
   \<and> (\<exists>e w'. ToCSV lib w [] dir = (Inl e, w') \<and> files w' = files w)"
proof (intro conjI allI impI)
  assume "exportCanWrite lib w dir (length records) \<and> records \<noteq> []"
  then show "\<exists>w'. ToCSV lib w records dir = (Inr (exportPath lib w dir), w')
      \<and> files w' = (files w)(exportPath lib w dir \<mapsto>
            concat (map (csv_Record lib) (csv_header # map (csv_row lib) records)))"
    using ToCSV_ok[of lib w dir records] by simp
next
  show "length (csv_header # map (csv_row lib) records) = length records + 1"
    by simp
  show "csv_header = [''file_path'', ''minimax_file_id'', ''minimax_voice_id'', ''status'',
                     ''error_reason'', ''updated_at'']"
    by (simp add: csv_header_def)
  show "\<exists>e w'. ToCSV lib w [] dir = (Inl e, w') \<and> files w' = files w"
    by (rule ToCSV_empty)
next
  fix rec :: Record
  show "csv_row lib rec =
      [FilePath rec, MinimaxFileID rec, MinimaxVoiceID rec, Status rec, ErrorReason rec,
       if IsZero (UpdatedAt rec) then [] else time_Format lib RFC3339 (UpdatedAt rec)]"
    by (simp add: csv_row_def)
next
  fix rec :: Record
  assume "time_Format lib RFC3339 (UpdatedAt rec) \<noteq> []"
  then show "csv_row lib rec ! 5 = [] \<longleftrightarrow> IsZero (UpdatedAt rec)"
    by (simp add: csv_row_def)
next
  fix w0 c p s w1 and rec :: Record
  assume h: "cloneFileCmd lib w0 (Some c) p = (Some s, w1) \<and> stepRecord s = Some rec
      \<and> Status rec = ''success''"
  then have "cloneFileCmd lib w0 (Some c) p = (Some s, w1)"
    by simp
  from cloneFileCmd_result[OF this] h show "ErrorReason rec = []"
    by auto
  then show "csv_row lib rec ! 4 = []"
    by (simp add: csv_row_def)
qed

text \<open>
  The two example records are exported as three rows; the second record never had its
  time set and its last column is empty. The export of no records fails and leaves the
  files alone.
\<close>

theorem export_rows_witness:
  "exportCanWrite demoLib demoWorld ''/home/u/Downloads'' (length demoRecords)
   \<and> demoRecords \<noteq> []
   \<and> fst (ToCSV demoLib demoWorld demoRecords ''/home/u/Downloads'')
       = Inr ''/home/u/Downloads/minimax_voice_export_20060102_150405@1000.csv''
   \<and> files (snd (ToCSV demoLib demoWorld demoRecords ''/home/u/Downloads''))
         ''/home/u/Downloads/minimax_voice_export_20060102_150405@1000.csv''
       = Some (csvLine csv_header
               @ csvLine [''/music/a.mp3'', ''7'', ''minimax-voice-0000c3'', ''success'', [],
                          ''2006-01-02T15:04:05Z07:00@1001'']
               @ csvLine [''/music/bad.mp3'', [], [], ''failed'', ''network error'', []])
   \<and> isl (fst (ToCSV demoLib demoWorld [] ''/home/u/Downloads''))"
proof -
  let ?p = "''/home/u/Downloads/minimax_voice_export_20060102_150405@1000.csv''"
  have can: "exportCanWrite demoLib demoWorld ''/home/u/Downloads'' (length demoRecords)"
    by (simp add: exportCanWrite_def demoWorld_def)
  have ne: "demoRecords \<noteq> []"
    by (simp add: demoRecords_def)
  have p: "exportPath demoLib demoWorld ''/home/u/Downloads'' = ?p"
    by code_simp
  have rows: "concat (map (csv_Record demoLib) (csv_header # map (csv_row demoLib) demoRecords))
      = csvLine csv_header
        @ csvLine [''/music/a.mp3'', ''7'', ''minimax-voice-0000c3'', ''success'', [],
                   ''2006-01-02T15:04:05Z07:00@1001'']
        @ csvLine [''/music/bad.mp3'', [], [], ''failed'', ''network error'', []]"
    by code_simp
  note th = export_rows[of demoLib demoWorld "''/home/u/Downloads''" demoRecords]
  from th[THEN conjunct1] can ne obtain w' where
    r: "ToCSV demoLib demoWorld demoRecords ''/home/u/Downloads'' = (Inr ?p, w')"
    and f: "files w' = (files demoWorld)(?p \<mapsto>
        concat (map (csv_Record demoLib) (csv_header # map (csv_row demoLib) demoRecords)))"
    unfolding p by blast
  from th obtain e w2 where "ToCSV demoLib demoWorld [] ''/home/u/Downloads'' = (Inl e, w2)"
    by blast
  then show ?thesis
    using can ne r f rows by simp
qed

section \<open>The directory listing\<close>

lemma sorted_by_name_unique:
  assumes "set xs = set ys" and "distinct (map entryName xs)" and "distinct (map entryName ys)"
  shows "sort_key entryName xs = sort_key entryName ys"
proof -
  let ?a = "sort_key entryName xs" and ?b = "sort_key entryName ys"
  have "sorted (map entryName ?a)" "sorted (map entryName ?b)"
    by simp_all
  moreover have "distinct (map entryName ?a)" "distinct (map entryName ?b)"
    using assms(2,3) by (simp_all add: distinct_map)
  moreover have "set (map entryName ?a) = set (map entryName ?b)"
    using assms(1) by simp
  ultimately have names: "map entryName ?a = map entryName ?b"
    by (metis sorted_distinct_set_unique)
  have "inj_on entryName (set ?a \<union> set ?b)"
    using assms by (simp add: distinct_map)
  with names show ?thesis
    by (simp add: inj_on_map_eq_map)
qed

text \<open>
  C4. For a directory that can be read, with \<open>sort.Slice\<close> keeping its promise on the
  entries read, the listing is the parent entry, present unless the parent of the path
  is the path itself, followed by all the entries of the directory: directories
  before files, and among the directories and among the files in the order of the
  lower-cased names. The listing depends on the content of the directory only: in
  another world where the directory holds the same entries, stored in whatever order,
  it is the same.
\<close>

theorem directory_listing:
  assumes rd: "os_ReadDir w p = Inr ents"
    and srt: "sortsBy (entryLess lib) ents (sort_Slice lib (entryLess lib) ents)"
  shows "\<exists>rest. listDirectory lib w p = Inr (parentItems lib p @ rest)
           \<and> mset rest = mset (map (childItem lib p) (entries w p))
           \<and> sorted_wrt (\<lambda>a b. isDir b \<longrightarrow> isDir a) rest
           \<and> sorted_wrt (\<lambda>a b. isDir a = isDir b
                \<longrightarrow> strings_ToLower lib (name a) \<le> strings_ToLower lib (name b)) rest
           \<and> (\<forall>w2. fails w2 (OpReadDir p) = None \<and> p \<in> dirs w2
                  \<and> set (entries w2 p) = set (entries w p)
                  \<and> distinct (map entryName (entries w p))
                  \<and> distinct (map entryName (entries w2 p))
                \<longrightarrow> listDirectory lib w2 p = listDirectory lib w p)"
proof -
  let ?s = "sort_Slice lib (entryLess lib) ents"
  let ?rest = "map (childItem lib p) ?s"
  from rd have ents: "ents = sort_key entryName (entries w p)"
    and ok: "fails w (OpReadDir p) = None" "p \<in> dirs w"
    by (auto simp: os_ReadDir_def split: option.splits if_splits)
  have l: "listDirectory lib w p = Inr (parentItems lib p @ ?rest)"
    using rd by (simp add: listDirectory_def parentItems_def Let_def)
  from srt have perm: "mset ?s = mset ents"
    and ord: "sorted_wrt (\<lambda>a b. \<not> entryLess lib b a) ?s"
    by (simp_all add: sortsBy_def)
  have all: "mset ?rest = mset (map (childItem lib p) (entries w p))"
    using perm ents by (metis mset_map mset_sort)
  have dirs_first: "sorted_wrt (\<lambda>a b. isDir b \<longrightarrow> isDir a) ?rest"
    unfolding sorted_wrt_map
    by (rule sorted_wrt_mono_rel[OF _ ord]) (auto simp: entryLess_def childItem_def split: if_splits)
  have by_name: "sorted_wrt (\<lambda>a b. isDir a = isDir b
      \<longrightarrow> strings_ToLower lib (name a) \<le> strings_ToLower lib (name b)) ?rest"
    unfolding sorted_wrt_map
    by (rule sorted_wrt_mono_rel[OF _ ord]) (auto simp: entryLess_def childItem_def split: if_splits)
  have det: "listDirectory lib w2 p = listDirectory lib w p"
    if "fails w2 (OpReadDir p) = None" "p \<in> dirs w2"
      "set (entries w2 p) = set (entries w p)"
      "distinct (map entryName (entries w p))" "distinct (map entryName (entries w2 p))"
    for w2
  proof -
    have "os_ReadDir w2 p = Inr (sort_key entryName (entries w2 p))"
      using that(1,2) by (simp add: os_ReadDir_def)
    also have "\<dots> = Inr ents"
      using sorted_by_name_unique[OF that(3) that(5) that(4)] ents by simp
    finally show ?thesis
      using rd by (simp add: listDirectory_def)
  qed
  show ?thesis
    using l all dirs_first by_name det by blast
qed

text \<open>
  The music directory lists as the parent, the subdirectory, then the files by their
  lower-cased names; the world that stores the entries in reverse gives the same.
\<close>

theorem directory_listing_witness:
  "os_ReadDir demoWorld ''/music''
     = Inr [\<lparr>entryName = ''A.txt'', entryIsDir = False\<rparr>,
            \<lparr>entryName = ''a.mp3'', entryIsDir = False\<rparr>,
            \<lparr>entryName = ''b.wav'', entryIsDir = False\<rparr>,
            \<lparr>entryName = ''bad.mp3'', entryIsDir = False\<rparr>,
            \<lparr>entryName = ''sub'', entryIsDir = True\<rparr>]
   \<and> map name (case listDirectory demoLib demoWorld ''/music'' of Inr its \<Rightarrow> its)
       = [''..'', ''sub'', ''a.mp3'', ''A.txt'', ''b.wav'', ''bad.mp3'']
   \<and> entries demoShuffled ''/music'' = rev (entries demoWorld ''/music'')
   \<and> listDirectory demoLib demoShuffled ''/music'' = listDirectory demoLib demoWorld ''/music''"
proof -
  let ?ents = "[\<lparr>entryName = ''A.txt'', entryIsDir = False\<rparr>,
            \<lparr>entryName = ''a.mp3'', entryIsDir = False\<rparr>,
            \<lparr>entryName = ''b.wav'', entryIsDir = False\<rparr>,
            \<lparr>entryName = ''bad.mp3'', entryIsDir = False\<rparr>,
            \<lparr>entryName = ''sub'', entryIsDir = True\<rparr>]"
  have rd: "os_ReadDir demoWorld ''/music'' = Inr ?ents"
    by code_simp
  have srt: "sortsBy (entryLess demoLib) ?ents (sort_Slice demoLib (entryLess demoLib) ?ents)"
    unfolding sortsBy_def by code_simp
  have names: "map name (case listDirectory demoLib demoWorld ''/music'' of Inr its \<Rightarrow> its)
       = [''..'', ''sub'', ''a.mp3'', ''A.txt'', ''b.wav'', ''bad.mp3'']"
    by code_simp
  have sh: "entries demoShuffled ''/music'' = rev (entries demoWorld ''/music'')"
    by (simp add: demoShuffled_def)
  have other: "fails demoShuffled (OpReadDir ''/music'') = None \<and> ''/music'' \<in> dirs demoShuffled
      \<and> set (entries demoShuffled ''/music'') = set (entries demoWorld ''/music'')
      \<and> distinct (map entryName (entries demoWorld ''/music''))
      \<and> distinct (map entryName (entries demoShuffled ''/music''))"
    by (auto simp add: demoShuffled_def demoWorld_def)
  from directory_listing[OF rd srt] other
  have "listDirectory demoLib demoShuffled ''/music'' = listDirectory demoLib demoWorld ''/music''"
    by blast
  then show ?thesis
    using rd names sh by simp
qed

section \<open>A run of the pipeline\<close>














section \<open>The example run\<close>





section \<open>Counters and records of a run\<close>




section \<open>The end of a run and the exports\<close>





end
